theory Spec2Isabelle
  imports Complex_Main
begin

section \<open>JavaScript numbers\<close>

text \<open>
  The hooks compute with JavaScript numbers. A number is modelled as one of the special
  values \<open>NaN\<close>, \<open>-Infinity\<close>, \<open>+Infinity\<close>, or a finite value. Finite values are
  real numbers and finite arithmetic is exact: the rounding and the overflow of IEEE 754
  doubles are not part of the model, and \<open>-0\<close> is identified with \<open>+0\<close> (a division of a
  non-zero finite value by zero takes the sign of the dividend). Every operator below is
  the ECMAScript operator of the same name on these values.
\<close>

datatype jsnum = NaN | NegInf | Fin real | PosInf

fun isNaN :: "jsnum \<Rightarrow> bool" where
  "isNaN NaN = True"
| "isNaN _ = False"

fun isFinite :: "jsnum \<Rightarrow> bool" where
  "isFinite (Fin _) = True"
| "isFinite _ = False"

text \<open>\<open>a <= b\<close>: false as soon as one side is \<open>NaN\<close>.\<close>

fun js_le :: "jsnum \<Rightarrow> jsnum \<Rightarrow> bool" where
  "js_le NaN _ = False"
| "js_le _ NaN = False"
| "js_le NegInf _ = True"
| "js_le _ PosInf = True"
| "js_le (Fin a) (Fin b) = (a \<le> b)"
| "js_le PosInf _ = False"
| "js_le (Fin a) NegInf = False"

text \<open>\<open>a < b\<close>.\<close>

fun js_lt :: "jsnum \<Rightarrow> jsnum \<Rightarrow> bool" where
  "js_lt NaN _ = False"
| "js_lt _ NaN = False"
| "js_lt PosInf _ = False"
| "js_lt _ NegInf = False"
| "js_lt (Fin a) (Fin b) = (a < b)"
| "js_lt NegInf _ = True"
| "js_lt (Fin a) PosInf = True"

text \<open>\<open>a === b\<close> on numbers: \<open>NaN\<close> is equal to nothing, itself included.\<close>

definition js_eq :: "jsnum \<Rightarrow> jsnum \<Rightarrow> bool" where
  "js_eq a b = (if isNaN a \<or> isNaN b then False else a = b)"

text \<open>\<open>Math.max(a, b)\<close> and \<open>Math.min(a, b)\<close>: \<open>NaN\<close> if either argument is.\<close>

definition Math_max :: "jsnum \<Rightarrow> jsnum \<Rightarrow> jsnum" where
  "Math_max a b = (if isNaN a \<or> isNaN b then NaN else if js_le a b then b else a)"

definition Math_min :: "jsnum \<Rightarrow> jsnum \<Rightarrow> jsnum" where
  "Math_min a b = (if isNaN a \<or> isNaN b then NaN else if js_le a b then a else b)"

text \<open>
  \<open>Math.round(x)\<close>: the integer nearest to \<open>x\<close>, a tie going to the larger one
  (towards \<open>+Infinity\<close>), which is \<open>floor(x + 1/2)\<close>; special values are returned as
  they are.
\<close>

fun Math_round :: "jsnum \<Rightarrow> jsnum" where
  "Math_round (Fin a) = Fin (of_int \<lfloor>a + 1 / 2\<rfloor>)"
| "Math_round v = v"

fun js_neg :: "jsnum \<Rightarrow> jsnum" where
  "js_neg NaN = NaN"
| "js_neg NegInf = PosInf"
| "js_neg (Fin a) = Fin (- a)"
| "js_neg PosInf = NegInf"

fun js_add :: "jsnum \<Rightarrow> jsnum \<Rightarrow> jsnum" where
  "js_add NaN _ = NaN"
| "js_add _ NaN = NaN"
| "js_add (Fin a) (Fin b) = Fin (a + b)"
| "js_add PosInf NegInf = NaN"
| "js_add NegInf PosInf = NaN"
| "js_add PosInf _ = PosInf"
| "js_add NegInf _ = NegInf"
| "js_add (Fin a) v = v"

definition js_sub :: "jsnum \<Rightarrow> jsnum \<Rightarrow> jsnum" where
  "js_sub a b = js_add a (js_neg b)"

text \<open>The infinity whose sign is that of \<open>a\<close>, for a non-zero \<open>a\<close>; \<open>NaN\<close> for zero.\<close>

definition signed_inf :: "real \<Rightarrow> jsnum" where
  "signed_inf a = (if a = 0 then NaN else if 0 < a then PosInf else NegInf)"

fun js_mul :: "jsnum \<Rightarrow> jsnum \<Rightarrow> jsnum" where
  "js_mul NaN _ = NaN"
| "js_mul _ NaN = NaN"
| "js_mul (Fin a) (Fin b) = Fin (a * b)"
| "js_mul (Fin a) PosInf = signed_inf a"
| "js_mul (Fin a) NegInf = signed_inf (- a)"
| "js_mul PosInf (Fin b) = signed_inf b"
| "js_mul NegInf (Fin b) = signed_inf (- b)"
| "js_mul PosInf PosInf = PosInf"
| "js_mul NegInf NegInf = PosInf"
| "js_mul PosInf NegInf = NegInf"
| "js_mul NegInf PosInf = NegInf"

fun js_div :: "jsnum \<Rightarrow> jsnum \<Rightarrow> jsnum" where
  "js_div NaN _ = NaN"
| "js_div _ NaN = NaN"
| "js_div (Fin a) (Fin b) = (if b = 0 then signed_inf a else Fin (a / b))"
| "js_div (Fin a) _ = Fin 0"
| "js_div PosInf (Fin b) = (if 0 \<le> b then PosInf else NegInf)"
| "js_div NegInf (Fin b) = (if 0 \<le> b then NegInf else PosInf)"
| "js_div _ _ = NaN"

section \<open>The drag-resize controller (useDragResize)\<close>

datatype ResizeDirection = Left | Right

record ElementDimensions =
  width :: jsnum
  height :: jsnum

text \<open>
  The hook's parameters. An optional parameter is an \<open>option\<close>; the callback
  \<open>onDimensionsChange\<close> is represented by whether it was supplied, and its invocations
  are logged in the state.
\<close>

record Params =
  initialWidth :: "jsnum option"
  initialHeight :: "jsnum option"
  minWidth :: jsnum
  minHeight :: jsnum
  maxWidth :: jsnum
  maxHeight :: "jsnum option"
  gridPercent :: "jsnum option"
  contentWidth :: "jsnum option"
  contentHeight :: "jsnum option"
  live :: "bool option"
  onDimensionsChange :: bool

text \<open>\<open>a ?? b\<close>.\<close>

fun nullish :: "'a option \<Rightarrow> 'a \<Rightarrow> 'a" where
  "nullish None d = d"
| "nullish (Some v) d = v"

text \<open>The destructuring defaults \<open>gridPercent = 100\<close> and \<open>live = false\<close>.\<close>

definition gridPercent_of :: "Params \<Rightarrow> jsnum" where
  "gridPercent_of p = nullish (gridPercent p) (Fin 100)"

definition live_of :: "Params \<Rightarrow> bool" where
  "live_of p = nullish (live p) False"

definition clamp :: "jsnum \<Rightarrow> jsnum \<Rightarrow> jsnum \<Rightarrow> jsnum" where
  "clamp v lo hi = Math_min hi (Math_max lo v)"

definition hasAspect :: "Params \<Rightarrow> bool" where
  "hasAspect p = (contentWidth p \<noteq> None \<and> contentHeight p \<noteq> None)"

definition aspect :: "Params \<Rightarrow> jsnum" where
  "aspect p =
     (case (contentWidth p, contentHeight p) of
        (Some cw, Some ch) \<Rightarrow> js_div ch cw
      | _ \<Rightarrow> Fin 1)"

definition snapWidth :: "Params \<Rightarrow> jsnum \<Rightarrow> jsnum \<Rightarrow> jsnum" where
  "snapWidth p proposed boundaryWidth =
     (let pct = clamp (gridPercent_of p) (Fin 1) (Fin 100) in
      if js_eq pct (Fin 100) then proposed
      else
        let step = js_mul (js_div pct (Fin 100)) boundaryWidth in
        if js_le step (Fin 0) \<or> \<not> isFinite step then proposed
        else js_mul (Math_round (js_div proposed step)) step)"

text \<open>
  \<open>constrainWH\<close> reads \<open>dimsRef.current.height\<close>; the current dimensions are its
  second argument.
\<close>

definition constrainWH :: "Params \<Rightarrow> ElementDimensions \<Rightarrow> jsnum \<Rightarrow> ElementDimensions" where
  "constrainWH p cur w =
     (let clampedW = clamp w (minWidth p) (maxWidth p);
          h = (if hasAspect p then js_mul clampedW (aspect p)
               else Math_max (height cur) (minHeight p));
          hi = nullish (maxHeight p) PosInf;
          clampedH = clamp h (minHeight p) hi
      in \<lparr>width = clampedW, height = clampedH\<rparr>)"

text \<open>
  A pair of handlers that a pointer-down registers on the handle element: the move
  handler, created for a boundary width, and the up handler. Each pointer-down creates
  new function objects, so every pair has an identity of its own.
\<close>

record Listener =
  l_id :: nat
  l_boundaryWidth :: jsnum

text \<open>
  The controller's state: the React state \<open>dimensions\<close> and \<open>isResizing\<close>, the refs,
  and the log \<open>calls\<close> of the invocations of \<open>onDimensionsChange\<close>, oldest first.
  \<open>rafIdRef\<close> holds whether a frame callback is pending (a request id is never zero, so
  the code's test \<open>if (rafIdRef.current)\<close> is this flag). \<open>listeners\<close> are the handler
  pairs that \<open>addEventListener\<close> has attached to the handle element and that no
  \<open>removeEventListener\<close> has removed, in the order of their registration;
  \<open>activeListenersRef\<close> is the pair that the ref records, which is the only pair that
  \<open>cleanup\<close> removes.

  The model follows one handle element and one pointer that stays active (as the mouse
  pointer does): every pointer event is an event of that element, and
  \<open>releasePointerCapture\<close> does not throw. Pointer capture itself is not modelled.
\<close>

record DragState =
  dimensions :: ElementDimensions
  isResizing :: bool
  dimsRef :: ElementDimensions
  originXRef :: jsnum
  startDimsRef :: ElementDimensions
  dirRef :: ResizeDirection
  rafIdRef :: bool
  activeListenersRef :: "Listener option"
  listeners :: "Listener list"
  nextListener :: nat
  calls :: "ElementDimensions list"

definition useDragResize_init :: "Params \<Rightarrow> DragState" where
  "useDragResize_init p =
     (let d = \<lparr>width = nullish (initialWidth p) (minWidth p),
                height = nullish (initialHeight p) (minHeight p)\<rparr>
      in \<lparr>dimensions = d, isResizing = False, dimsRef = d, originXRef = Fin 0,
          startDimsRef = d, dirRef = Right, rafIdRef = False,
          activeListenersRef = None, listeners = [], nextListener = 0, calls = []\<rparr>)"

definition setDims :: "ElementDimensions \<Rightarrow> DragState \<Rightarrow> DragState" where
  "setDims next s = s\<lparr>dimsRef := next, dimensions := next\<rparr>"

text \<open>
  \<open>notifyLive\<close> only schedules: a pending frame request is cancelled and replaced. The
  callback runs when the frame fires (\<open>animationFrame\<close>).
\<close>

definition notifyLive :: "Params \<Rightarrow> DragState \<Rightarrow> DragState" where
  "notifyLive p s =
     (if \<not> live_of p \<or> \<not> onDimensionsChange p then s
      else s\<lparr>rafIdRef := True\<rparr>)"

definition animationFrame :: "DragState \<Rightarrow> DragState" where
  "animationFrame s =
     (if rafIdRef s then s\<lparr>rafIdRef := False, calls := calls s @ [dimsRef s]\<rparr>
      else s)"

text \<open>
  \<open>cleanup\<close> removes the recorded pair from the element, clears the record and cancels
  a pending frame request. A pair that the record no longer names stays attached.
\<close>

definition removeEventListener :: "Listener \<Rightarrow> DragState \<Rightarrow> DragState" where
  "removeEventListener l s = s\<lparr>listeners := filter (\<lambda>m. l_id m \<noteq> l_id l) (listeners s)\<rparr>"

definition cleanup :: "DragState \<Rightarrow> DragState" where
  "cleanup s =
     (let s1 = (case activeListenersRef s of
                  None \<Rightarrow> s
                | Some l \<Rightarrow> removeEventListener l s)
      in s1\<lparr>activeListenersRef := None, rafIdRef := False\<rparr>)"

text \<open>The local constants \<open>deltaX\<close> and \<open>proposedW\<close> of the move handler.\<close>

definition deltaX :: "ResizeDirection \<Rightarrow> jsnum \<Rightarrow> jsnum \<Rightarrow> jsnum" where
  "deltaX dir originX pageX =
     (if dir = Left then js_sub originX pageX else js_sub pageX originX)"

definition proposedW :: "DragState \<Rightarrow> jsnum \<Rightarrow> jsnum" where
  "proposedW s pageX =
     js_add (width (startDimsRef s)) (deltaX (dirRef s) (originXRef s) pageX)"

definition handlePointerMove :: "Params \<Rightarrow> jsnum \<Rightarrow> jsnum \<Rightarrow> DragState \<Rightarrow> DragState" where
  "handlePointerMove p boundaryWidth pageX s =
     (let snappedW = snapWidth p (proposedW s pageX) boundaryWidth;
          next = constrainWH p (dimsRef s) snappedW;
          prev = dimsRef s
      in if \<not> js_eq (Math_round (width prev)) (Math_round (width next)) \<or>
            \<not> js_eq (Math_round (height prev)) (Math_round (height next))
         then notifyLive p (setDims next s)
         else s)"

definition handlePointerUp :: "Params \<Rightarrow> DragState \<Rightarrow> DragState" where
  "handlePointerUp p s =
     (let s1 = (cleanup s)\<lparr>isResizing := False\<rparr>
      in if onDimensionsChange p then s1\<lparr>calls := calls s1 @ [dimsRef s1]\<rparr> else s1)"

text \<open>
  \<open>initiateResize(direction, boundaryWidth = maxWidth)\<close> applied to a pointer-down event
  at \<open>pageX\<close>. It records the new pair and attaches it; it removes nothing.
\<close>

definition initiateResize ::
  "Params \<Rightarrow> ResizeDirection \<Rightarrow> jsnum option \<Rightarrow> jsnum \<Rightarrow> DragState \<Rightarrow> DragState" where
  "initiateResize p direction boundaryWidth pageX s =
     (let start = \<lparr>width = clamp (width (dimensions s)) (minWidth p) (maxWidth p),
                    height = clamp (height (dimensions s)) (minHeight p)
                               (nullish (maxHeight p) PosInf)\<rparr>;
          l = \<lparr>l_id = nextListener s, l_boundaryWidth = nullish boundaryWidth (maxWidth p)\<rparr>
      in s\<lparr>dirRef := direction, originXRef := pageX, startDimsRef := start,
           isResizing := True, activeListenersRef := Some l,
           listeners := listeners s @ [l], nextListener := nextListener s + 1\<rparr>)"

text \<open>What the hook returns as \<open>currentWidth\<close> and \<open>currentHeight\<close>.\<close>

definition currentWidth :: "Params \<Rightarrow> DragState \<Rightarrow> jsnum" where
  "currentWidth p s = Math_max (width (dimensions s)) (minWidth p)"

definition currentHeight :: "Params \<Rightarrow> DragState \<Rightarrow> jsnum" where
  "currentHeight p s = Math_max (height (dimensions s)) (minHeight p)"

text \<open>
  The dispatch of an event at the handle element runs the handlers attached when the
  dispatch starts, in the order of their registration; a handler that an earlier one
  has removed in the meantime is not run. A move handler removes nothing, so a
  pointer-move runs every attached move handler; an up handler runs \<open>cleanup\<close>.
\<close>

definition attached :: "Listener \<Rightarrow> DragState \<Rightarrow> bool" where
  "attached l s = list_ex (\<lambda>m. l_id m = l_id l) (listeners s)"

fun dispatch_move :: "Params \<Rightarrow> jsnum \<Rightarrow> Listener list \<Rightarrow> DragState \<Rightarrow> DragState" where
  "dispatch_move p pageX [] s = s"
| "dispatch_move p pageX (l # ls) s =
     dispatch_move p pageX ls (handlePointerMove p (l_boundaryWidth l) pageX s)"

fun dispatch_up :: "Params \<Rightarrow> Listener list \<Rightarrow> DragState \<Rightarrow> DragState" where
  "dispatch_up p [] s = s"
| "dispatch_up p (l # ls) s =
     dispatch_up p ls (if attached l s then handlePointerUp p s else s)"

text \<open>The events a controller sees, and its reaction to each.\<close>

datatype Event =
    PointerDown ResizeDirection "jsnum option" jsnum
  | PointerMove jsnum
  | PointerUp
  | AnimationFrame
  | SetDimensions ElementDimensions
  | Unmount

fun step :: "Params \<Rightarrow> DragState \<Rightarrow> Event \<Rightarrow> DragState" where
  "step p s (PointerDown direction boundaryWidth pageX) =
     initiateResize p direction boundaryWidth pageX s"
| "step p s (PointerMove pageX) = dispatch_move p pageX (listeners s) s"
| "step p s PointerUp = dispatch_up p (listeners s) s"
| "step p s AnimationFrame = animationFrame s"
| "step p s (SetDimensions d) = setDims d s"
| "step p s Unmount = cleanup s"

definition run :: "Params \<Rightarrow> DragState \<Rightarrow> Event list \<Rightarrow> DragState" where
  "run p s evs = foldl (step p) s evs"

section \<open>The rect tracker (useContainerRect)\<close>

text \<open>A rect; its fields \<open>x\<close>, \<open>y\<close>, \<open>width\<close>, ... carry the prefix \<open>rect_\<close>.\<close>

record Rect =
  rect_x :: jsnum
  rect_y :: jsnum
  rect_width :: jsnum
  rect_height :: jsnum
  rect_top :: jsnum
  rect_left :: jsnum
  rect_right :: jsnum
  rect_bottom :: jsnum

definition DEFAULT_RECT :: Rect where
  "DEFAULT_RECT =
     \<lparr>rect_x = Fin 0, rect_y = Fin 0, rect_width = Fin 0, rect_height = Fin 0,
      rect_top = Fin 0, rect_left = Fin 0, rect_right = Fin 0, rect_bottom = Fin 0\<rparr>"

text \<open>
  Rect objects are never mutated (the default one is frozen, a measured one is replaced
  wholesale), so an object reference is the object's identity together with its content:
  two references are the same object exactly when their identities agree. A new object
  takes the next unused identity.
\<close>

record RectObj =
  obj_id :: nat
  obj_val :: Rect

subsection \<open>The DOM as the tracker sees it\<close>

text \<open>
  The computed value of \<open>overflow-x\<close> and \<open>overflow-y\<close> is one of the CSS keywords
  below; \<open>getComputedStyle\<close> returns the keyword as a string. An element carries its
  identity, its two computed overflow values and its \<open>parentElement\<close>.
\<close>

datatype overflow = Visible | Hidden | Clip | Scroll | Auto | Overlay

fun css_keyword :: "overflow \<Rightarrow> string" where
  "css_keyword Visible = ''visible''"
| "css_keyword Hidden = ''hidden''"
| "css_keyword Clip = ''clip''"
| "css_keyword Scroll = ''scroll''"
| "css_keyword Auto = ''auto''"
| "css_keyword Overlay = ''overlay''"

datatype element =
  Element (eid: nat) (overflowX: overflow) (overflowY: overflow) (parentElement: "element option")

datatype scroll_target = Elem element | Window

text \<open>
  \<open>/(auto|scroll|overlay)/.test(s)\<close>: the pattern is not anchored, so the test is
  whether one of the three words occurs somewhere in \<open>s\<close>.
\<close>

fun starts_with :: "string \<Rightarrow> string \<Rightarrow> bool" where
  "starts_with [] s = True"
| "starts_with (c # cs) [] = False"
| "starts_with (c # cs) (d # ds) = (c = d \<and> starts_with cs ds)"

fun occurs_in :: "string \<Rightarrow> string \<Rightarrow> bool" where
  "occurs_in pat [] = starts_with pat []"
| "occurs_in pat (d # ds) = (starts_with pat (d # ds) \<or> occurs_in pat ds)"

definition scroll_regex_test :: "string \<Rightarrow> bool" where
  "scroll_regex_test s =
     (occurs_in ''auto'' s \<or> occurs_in ''scroll'' s \<or> occurs_in ''overlay'' s)"

text \<open>
  The loop of \<open>getScrollParents\<close>, started at \<open>el.parentElement\<close>: it stops at
  \<open>null\<close> and at \<open>document.body\<close> (compared by identity).
\<close>

fun scroll_walk :: "element \<Rightarrow> element option \<Rightarrow> scroll_target list" where
  "scroll_walk body None = []"
| "scroll_walk body (Some (Element i ox oy par)) =
     (if i = eid body then []
      else (if scroll_regex_test (css_keyword oy) \<or> scroll_regex_test (css_keyword ox)
            then [Elem (Element i ox oy par)] else [])
           @ scroll_walk body par)"

definition getScrollParents :: "element \<Rightarrow> element option \<Rightarrow> scroll_target list" where
  "getScrollParents body el =
     (case el of
        None \<Rightarrow> [Window]
      | Some e \<Rightarrow> scroll_walk body (parentElement e) @ [Window])"

subsection \<open>The tracker's state and operations\<close>

text \<open>
  \<open>rect\<close> is the React state, the published rect; \<open>updates\<close> counts the state updates
  React was signalled (an updater that returns the previous object signals none).
  \<open>framePending\<close> is whether the browser holds a frame callback of this tracker;
  \<open>t_rafIdRef\<close> is whether \<open>rafIdRef.current\<close> holds a request id. \<open>roRef\<close> and
  \<open>resizeHandlerRef\<close> are whether an observer and a window listener are installed, and
  \<open>scrollHandlersRef\<close> lists the targets that carry a scroll listener.
\<close>

record TrackerState =
  rect :: RectObj
  updates :: nat
  nextId :: nat
  nodeRef :: "element option"
  rectRef :: RectObj
  t_rafIdRef :: bool
  framePending :: bool
  roRef :: bool
  resizeHandlerRef :: bool
  scrollHandlersRef :: "scroll_target list"

definition useContainerRect_init :: TrackerState where
  "useContainerRect_init =
     (let d = \<lparr>obj_id = 0, obj_val = DEFAULT_RECT\<rparr>
      in \<lparr>rect = d, updates = 0, nextId = 1, nodeRef = None, rectRef = d,
          t_rafIdRef = False, framePending = False, roRef = False,
          resizeHandlerRef = False, scrollHandlersRef = []\<rparr>)"

text \<open>The comparison \<open>same\<close> of \<open>measure\<close>.\<close>

definition same :: "Rect \<Rightarrow> Rect \<Rightarrow> bool" where
  "same prev r =
     (js_eq (Math_round (rect_width prev)) (Math_round (rect_width r)) \<and>
      js_eq (Math_round (rect_height prev)) (Math_round (rect_height r)) \<and>
      js_eq (Math_round (rect_x prev)) (Math_round (rect_x r)) \<and>
      js_eq (Math_round (rect_y prev)) (Math_round (rect_y r)))"

text \<open>
  \<open>measure(el)\<close> (named \<open>measure_rect\<close> here), where \<open>r\<close> is what \<open>el.getBoundingClientRect()\<close> returns at that
  moment.
\<close>

definition measure_rect :: "Rect \<Rightarrow> TrackerState \<Rightarrow> TrackerState" where
  "measure_rect r s =
     (let prev = obj_val (rect s) in
      if same prev r then s
      else
        let next = \<lparr>obj_id = nextId s,
                    obj_val = \<lparr>rect_x = rect_x r, rect_y = rect_y r,
                               rect_width = rect_width r, rect_height = rect_height r,
                               rect_top = rect_top r, rect_left = rect_left r,
                               rect_right = rect_right r, rect_bottom = rect_bottom r\<rparr>\<rparr>
        in s\<lparr>rectRef := next, rect := next, updates := updates s + 1,
             nextId := nextId s + 1\<rparr>)"

text \<open>A pending request is cancelled, then a new one is made.\<close>

definition schedule :: "TrackerState \<Rightarrow> TrackerState" where
  "schedule s =
     (let s1 = (if t_rafIdRef s then s\<lparr>framePending := False\<rparr> else s)
      in s1\<lparr>t_rafIdRef := True, framePending := True\<rparr>)"

text \<open>The scheduled frame callback fires; \<open>r\<close> is the node's geometry at that moment.\<close>

definition frame :: "Rect \<Rightarrow> TrackerState \<Rightarrow> TrackerState" where
  "frame r s =
     (if framePending s then
        (case nodeRef s of
           None \<Rightarrow> s\<lparr>framePending := False\<rparr>
         | Some el \<Rightarrow> measure_rect r (s\<lparr>framePending := False\<rparr>))
      else s)"

definition rect_cleanup :: "TrackerState \<Rightarrow> TrackerState" where
  "rect_cleanup s =
     (let s1 = (if t_rafIdRef s then s\<lparr>framePending := False, t_rafIdRef := False\<rparr> else s);
          s2 = (if roRef s1 then s1\<lparr>roRef := False\<rparr> else s1);
          s3 = (if resizeHandlerRef s2 then s2\<lparr>resizeHandlerRef := False\<rparr> else s2)
      in if scrollHandlersRef s3 \<noteq> [] then s3\<lparr>scrollHandlersRef := []\<rparr> else s3)"

text \<open>
  The callback ref, \<open>ref(node)\<close>, of a tracker created with \<open>trackPosition\<close>; \<open>r\<close> is
  the geometry of \<open>node\<close> at that moment (unused for \<open>null\<close>).
\<close>

definition ref :: "bool \<Rightarrow> element \<Rightarrow> element option \<Rightarrow> Rect \<Rightarrow> TrackerState \<Rightarrow> TrackerState" where
  "ref trackPosition body node r s =
     (let s1 = (rect_cleanup s)\<lparr>nodeRef := node\<rparr> in
      case node of
        None \<Rightarrow> s1
      | Some el \<Rightarrow>
          let s2 = (measure_rect r s1)\<lparr>roRef := True, resizeHandlerRef := True\<rparr>
          in if trackPosition
             then s2\<lparr>scrollHandlersRef := scrollHandlersRef s2 @ getScrollParents body node\<rparr>
             else s2)"

text \<open>The cleanup of the layout effect, run when the component unmounts.\<close>

definition unmount :: "TrackerState \<Rightarrow> TrackerState" where
  "unmount s = rect_cleanup (s\<lparr>nodeRef := None\<rparr>)"

section \<open>The specification's scenarios and wordings\<close>

text \<open>
  The configuration of the specification's scenarios: \<open>minWidth = 100\<close>,
  \<open>minHeight = 100\<close>, \<open>maxWidth = 500\<close>, initial size 200 by 200; and the same with the
  aspect ratio locked to 16:9.
\<close>

definition scenario_params :: Params where
  "scenario_params =
     \<lparr>initialWidth = Some (Fin 200), initialHeight = Some (Fin 200),
      minWidth = Fin 100, minHeight = Fin 100, maxWidth = Fin 500, maxHeight = None,
      gridPercent = None, contentWidth = None, contentHeight = None,
      live = None, onDimensionsChange = False\<rparr>"

definition locked_params :: Params where
  "locked_params = scenario_params\<lparr>contentWidth := Some (Fin 16), contentHeight := Some (Fin 9)\<rparr>"



text \<open>
  The unlocked height as the specification words it: the last-known height, raised to
  \<open>minHeight\<close> if below it, and otherwise left unchanged.
\<close>

definition spec_free_height :: "jsnum \<Rightarrow> jsnum \<Rightarrow> jsnum" where
  "spec_free_height minH h = (if js_lt h minH then minH else h)"

definition capped_params :: Params where
  "capped_params = scenario_params\<lparr>initialHeight := Some (Fin 400), maxHeight := Some (Fin 300)\<rparr>"

text \<open>
  The events of a drag in progress: pointer moves, and frames firing in between.
\<close>

fun drag_event :: "Event \<Rightarrow> bool" where
  "drag_event (PointerMove x) = True"
| "drag_event AnimationFrame = True"
| "drag_event ev = False"

definition callback_params :: Params where
  "callback_params = scenario_params\<lparr>onDimensionsChange := True\<rparr>"

definition live_params :: Params where
  "live_params = scenario_params\<lparr>live := Some True, onDimensionsChange := True\<rparr>"

text \<open>
  The invariant the specification states for \<open>ElementDimensions\<close>: both components
  positive, and within \<open>[minWidth, maxWidth] x [minHeight, maxHeight or Infinity]\<close>.
\<close>

definition spec_dimensions_invariant :: "Params \<Rightarrow> ElementDimensions \<Rightarrow> bool" where
  "spec_dimensions_invariant p d =
     (js_lt (Fin 0) (width d) \<and> js_lt (Fin 0) (height d)
      \<and> js_le (minWidth p) (width d) \<and> js_le (width d) (maxWidth p)
      \<and> js_le (minHeight p) (height d) \<and> js_le (height d) (nullish (maxHeight p) PosInf))"

text \<open>
  A valid configuration: positive, ordered bounds, and content dimensions that are
  finite and positive when supplied. An admissible event: finite pointer coordinates,
  and an override within the bounds.
\<close>

fun positive_finite :: "jsnum option \<Rightarrow> bool" where
  "positive_finite None = True"
| "positive_finite (Some (Fin c)) = (0 < c)"
| "positive_finite (Some v) = False"

definition valid_params :: "Params \<Rightarrow> bool" where
  "valid_params p =
     (js_lt (Fin 0) (minWidth p) \<and> js_le (minWidth p) (maxWidth p)
      \<and> js_lt (Fin 0) (minHeight p) \<and> js_le (minHeight p) (nullish (maxHeight p) PosInf)
      \<and> positive_finite (contentWidth p) \<and> positive_finite (contentHeight p))"

fun admissible :: "Params \<Rightarrow> Event \<Rightarrow> bool" where
  "admissible p (PointerDown direction boundaryWidth pageX) = isFinite pageX"
| "admissible p (PointerMove pageX) = isFinite pageX"
| "admissible p (SetDimensions d) = spec_dimensions_invariant p d"
| "admissible p ev = True"

text \<open>What holds of the controller's state along admissible events.\<close>

definition drag_inv :: "Params \<Rightarrow> DragState \<Rightarrow> bool" where
  "drag_inv p s =
     (spec_dimensions_invariant p (dimsRef s) \<and> dimensions s = dimsRef s
      \<and> \<not> isNaN (width (startDimsRef s)) \<and> isFinite (originXRef s))"

definition oversize_params :: Params where
  "oversize_params = scenario_params\<lparr>initialWidth := Some (Fin 1000)\<rparr>"

text \<open>
  The scroll-parent set as the specification words it: the ancestors from the element's
  parent upward, up to but not including the body, of which those with a scrollable
  overflow are kept, nearest first; then the window.
\<close>

fun ancestors_from :: "element option \<Rightarrow> element list" where
  "ancestors_from None = []"
| "ancestors_from (Some (Element i ox oy par)) = Element i ox oy par # ancestors_from par"

definition scrollable :: "overflow \<Rightarrow> bool" where
  "scrollable v = (v = Auto \<or> v = Scroll \<or> v = Overlay)"

definition is_scroll_parent :: "element \<Rightarrow> bool" where
  "is_scroll_parent n = (scrollable (overflowX n) \<or> scrollable (overflowY n))"

definition spec_scroll_parents :: "element \<Rightarrow> element \<Rightarrow> scroll_target list" where
  "spec_scroll_parents body el =
     map Elem (filter is_scroll_parent
       (takeWhile (\<lambda>n. eid n \<noteq> eid body) (ancestors_from (parentElement el))))
     @ [Window]"

text \<open>
  A small document: \<open>html > body > scroller > panel > leaf\<close>, where only the scroller
  has a scrollable overflow (\<open>overflow-y: auto\<close>); and an element directly in the body.
\<close>

definition html_el :: element where
  "html_el = Element 0 Visible Visible None"

definition body_el :: element where
  "body_el = Element 1 Visible Visible (Some html_el)"

definition scroller_el :: element where
  "scroller_el = Element 2 Hidden Auto (Some body_el)"

definition panel_el :: element where
  "panel_el = Element 3 Visible Visible (Some scroller_el)"

definition leaf_el :: element where
  "leaf_el = Element 4 Visible Visible (Some panel_el)"

definition top_el :: element where
  "top_el = Element 5 Hidden Clip (Some body_el)"

text \<open>The geometry that the repository's unit tests give their element.\<close>

definition measured_rect :: Rect where
  "measured_rect =
     \<lparr>rect_x = Fin 10, rect_y = Fin 20, rect_width = Fin 100, rect_height = Fin 200,
      rect_top = Fin 20, rect_left = Fin 10, rect_right = Fin 110, rect_bottom = Fin 220\<rparr>"

definition attached_state :: TrackerState where
  "attached_state = ref False body_el (Some leaf_el) measured_rect useContainerRect_init"

section \<open>Order and clamping\<close>

lemma js_le_trans: "js_le a b \<Longrightarrow> js_le b c \<Longrightarrow> js_le a c"
  by (cases a; cases b; cases c) simp_all

lemma js_le_not_NaN: "js_le a b \<Longrightarrow> \<not> isNaN a \<and> \<not> isNaN b"
  by (cases a; cases b) simp_all

lemma js_lt_le: "js_lt a b \<Longrightarrow> js_le a b"
  by (cases a; cases b) simp_all

lemma clamp_upper: "js_le lo hi \<Longrightarrow> js_le hi v \<Longrightarrow> clamp v lo hi = hi"
  by (cases lo; cases hi; cases v) (simp_all add: clamp_def Math_min_def Math_max_def)

lemma clamp_lower: "js_le lo hi \<Longrightarrow> js_le v lo \<Longrightarrow> clamp v lo hi = lo"
  by (cases lo; cases hi; cases v) (simp_all add: clamp_def Math_min_def Math_max_def)

lemma clamp_inside: "js_le lo v \<Longrightarrow> js_le v hi \<Longrightarrow> clamp v lo hi = v"
  by (cases lo; cases hi; cases v) (simp_all add: clamp_def Math_min_def Math_max_def)

lemma clamp_bounds:
  "js_le lo hi \<Longrightarrow> \<not> isNaN v \<Longrightarrow> js_le lo (clamp v lo hi) \<and> js_le (clamp v lo hi) hi"
  by (cases lo; cases hi; cases v) (simp_all add: clamp_def Math_min_def Math_max_def)

section \<open>The constrain step\<close>

lemma constrainWH_width: "width (constrainWH p cur w) = clamp w (minWidth p) (maxWidth p)"
  by (simp add: constrainWH_def Let_def)

lemma constrainWH_height_locked:
  "contentWidth p = Some cw \<Longrightarrow> contentHeight p = Some ch \<Longrightarrow>
   height (constrainWH p cur w) =
     clamp (js_mul (clamp w (minWidth p) (maxWidth p)) (js_div ch cw)) (minHeight p)
       (nullish (maxHeight p) PosInf)"
  by (simp add: constrainWH_def Let_def hasAspect_def aspect_def)

lemma constrainWH_height_free:
  "\<not> hasAspect p \<Longrightarrow>
   height (constrainWH p cur w) =
     clamp (Math_max (height cur) (minHeight p)) (minHeight p) (nullish (maxHeight p) PosInf)"
  by (simp add: constrainWH_def Let_def)

text \<open>
  Claim C1. The constrain step maps the snapped width \<open>w\<close> to
  \<open>min(maxWidth, max(minWidth, w))\<close>. With ordered bounds (\<open>minWidth <= maxWidth\<close>), a
  width at or beyond \<open>maxWidth\<close> gives exactly \<open>maxWidth\<close> and a width at or below
  \<open>minWidth\<close> gives exactly \<open>minWidth\<close>. With the aspect ratio locked (both
  \<open>contentWidth\<close> and \<open>contentHeight\<close> supplied) the height is the constrained width times
  \<open>contentHeight / contentWidth\<close>, clamped to \<open>[minHeight, maxHeight or Infinity]\<close>.
  With 16 and 9, a width of 320 that the bounds admit gives the height 180, and the
  specification's scenario (pointer down at 200 on a right handle, move to 320) ends at
  320 by 180.
\<close>

theorem constrainWH_clamps:
  "width (constrainWH p cur w) = Math_min (maxWidth p) (Math_max (minWidth p) w)
   \<and> (js_le (minWidth p) (maxWidth p) \<and> js_le (maxWidth p) w
        \<longrightarrow> width (constrainWH p cur w) = maxWidth p)
   \<and> (js_le (minWidth p) (maxWidth p) \<and> js_le w (minWidth p)
        \<longrightarrow> width (constrainWH p cur w) = minWidth p)
   \<and> (contentWidth p = Some cw \<and> contentHeight p = Some ch
        \<longrightarrow> height (constrainWH p cur w) =
            clamp (js_mul (width (constrainWH p cur w)) (js_div ch cw)) (minHeight p)
              (nullish (maxHeight p) PosInf))
   \<and> (contentWidth p = Some (Fin 16) \<and> contentHeight p = Some (Fin 9)
        \<and> js_le (minWidth p) (Fin 320) \<and> js_le (Fin 320) (maxWidth p)
        \<and> js_le (minHeight p) (Fin 180) \<and> js_le (Fin 180) (nullish (maxHeight p) PosInf)
        \<longrightarrow> constrainWH p cur (Fin 320) = \<lparr>width = Fin 320, height = Fin 180\<rparr>)
   \<and> dimsRef (run locked_params (useDragResize_init locked_params)
        [PointerDown Right None (Fin 200), PointerMove (Fin 320)])
      = \<lparr>width = Fin 320, height = Fin 180\<rparr>"
proof (intro conjI impI)
  show "width (constrainWH p cur w) = Math_min (maxWidth p) (Math_max (minWidth p) w)"
    by (simp add: constrainWH_width clamp_def)
next
  assume "js_le (minWidth p) (maxWidth p) \<and> js_le (maxWidth p) w"
  then show "width (constrainWH p cur w) = maxWidth p"
    by (simp add: constrainWH_width clamp_upper)
next
  assume "js_le (minWidth p) (maxWidth p) \<and> js_le w (minWidth p)"
  then show "width (constrainWH p cur w) = minWidth p"
    by (simp add: constrainWH_width clamp_lower)
next
  assume "contentWidth p = Some cw \<and> contentHeight p = Some ch"
  then show "height (constrainWH p cur w) =
            clamp (js_mul (width (constrainWH p cur w)) (js_div ch cw)) (minHeight p)
              (nullish (maxHeight p) PosInf)"
    by (simp add: constrainWH_width constrainWH_height_locked)
next
  assume a: "contentWidth p = Some (Fin 16) \<and> contentHeight p = Some (Fin 9)
        \<and> js_le (minWidth p) (Fin 320) \<and> js_le (Fin 320) (maxWidth p)
        \<and> js_le (minHeight p) (Fin 180) \<and> js_le (Fin 180) (nullish (maxHeight p) PosInf)"
  then have w: "clamp (Fin 320) (minWidth p) (maxWidth p) = Fin 320"
    by (simp add: clamp_inside)
  from a have h: "clamp (Fin 180) (minHeight p) (nullish (maxHeight p) PosInf) = Fin 180"
    by (simp add: clamp_inside)
  from a have "height (constrainWH p cur (Fin 320)) = Fin 180"
    by (simp add: constrainWH_height_locked w h)
  moreover have "width (constrainWH p cur (Fin 320)) = Fin 320"
    by (simp add: constrainWH_width w)
  ultimately show "constrainWH p cur (Fin 320) = \<lparr>width = Fin 320, height = Fin 180\<rparr>"
    by (cases "constrainWH p cur (Fin 320)") simp
next
  show "dimsRef (run locked_params (useDragResize_init locked_params)
        [PointerDown Right None (Fin 200), PointerMove (Fin 320)])
      = \<lparr>width = Fin 320, height = Fin 180\<rparr>"
    by code_simp
qed

theorem constrainWH_clamps_witness:
  "js_le (minWidth locked_params) (maxWidth locked_params)
   \<and> js_le (maxWidth locked_params) (Fin 9000)
   \<and> width (constrainWH locked_params \<lparr>width = Fin 200, height = Fin 200\<rparr> (Fin 9000)) = Fin 500
   \<and> js_le (Fin (- 9000)) (minWidth locked_params)
   \<and> width (constrainWH locked_params \<lparr>width = Fin 200, height = Fin 200\<rparr> (Fin (- 9000))) = Fin 100
   \<and> contentWidth locked_params = Some (Fin 16) \<and> contentHeight locked_params = Some (Fin 9)
   \<and> js_le (minWidth locked_params) (Fin 320) \<and> js_le (Fin 320) (maxWidth locked_params)
   \<and> js_le (minHeight locked_params) (Fin 180)
   \<and> js_le (Fin 180) (nullish (maxHeight locked_params) PosInf)
   \<and> constrainWH locked_params \<lparr>width = Fin 200, height = Fin 200\<rparr> (Fin 320)
       = \<lparr>width = Fin 320, height = Fin 180\<rparr>"
proof -
  let ?cur = "\<lparr>width = Fin 200, height = Fin 200\<rparr>"
  have v: "minWidth locked_params = Fin 100" "maxWidth locked_params = Fin 500"
    "minHeight locked_params = Fin 100" "maxHeight locked_params = None"
    "contentWidth locked_params = Some (Fin 16)" "contentHeight locked_params = Some (Fin 9)"
    by (simp_all add: locked_params_def scenario_params_def)
  have b: "js_le (minWidth locked_params) (maxWidth locked_params)"
    and hi: "js_le (maxWidth locked_params) (Fin 9000)"
    and lo: "js_le (Fin (- 9000)) (minWidth locked_params)"
    and m: "js_le (minWidth locked_params) (Fin 320)" "js_le (Fin 320) (maxWidth locked_params)"
      "js_le (minHeight locked_params) (Fin 180)"
      "js_le (Fin 180) (nullish (maxHeight locked_params) PosInf)"
    by (simp_all add: v)
  have "width (constrainWH locked_params ?cur (Fin 9000)) = maxWidth locked_params"
    using constrainWH_clamps [where p = locked_params and cur = ?cur and w = "Fin 9000"] b hi
    by blast
  moreover have "width (constrainWH locked_params ?cur (Fin (- 9000))) = minWidth locked_params"
    using constrainWH_clamps [where p = locked_params and cur = ?cur and w = "Fin (- 9000)"] b lo
    by blast
  moreover have "constrainWH locked_params ?cur (Fin 320) = \<lparr>width = Fin 320, height = Fin 180\<rparr>"
    using constrainWH_clamps [where p = locked_params and cur = ?cur] v(5,6) m
    by blast
  ultimately show ?thesis using b hi lo m v by simp
qed

section \<open>The grid snap\<close>

lemma pct_cases:
  "clamp g (Fin 1) (Fin 100) = NaN \<or> (\<exists>c. clamp g (Fin 1) (Fin 100) = Fin c \<and> 1 \<le> c \<and> c \<le> 100)"
  by (cases g) (auto simp: clamp_def Math_min_def Math_max_def)

lemma snapWidth_guard:
  "js_le (js_mul (js_div (clamp (gridPercent_of p) (Fin 1) (Fin 100)) (Fin 100)) b) (Fin 0)
     \<or> \<not> isFinite (js_mul (js_div (clamp (gridPercent_of p) (Fin 1) (Fin 100)) (Fin 100)) b)
   \<Longrightarrow> snapWidth p w b = w"
  by (auto simp: snapWidth_def Let_def)

lemma step_degenerate:
  assumes "js_le b (Fin 0) \<or> \<not> isFinite b"
  shows "js_le (js_mul (js_div (clamp g (Fin 1) (Fin 100)) (Fin 100)) b) (Fin 0)
     \<or> \<not> isFinite (js_mul (js_div (clamp g (Fin 1) (Fin 100)) (Fin 100)) b)"
proof -
  from pct_cases [of g] show ?thesis
  proof
    assume "clamp g (Fin 1) (Fin 100) = NaN"
    then show ?thesis by simp
  next
    assume "\<exists>c. clamp g (Fin 1) (Fin 100) = Fin c \<and> 1 \<le> c \<and> c \<le> 100"
    then obtain c where c: "clamp g (Fin 1) (Fin 100) = Fin c" "1 \<le> c" by blast
    with assms show ?thesis
      by (cases b) (auto simp: signed_inf_def mult_le_0_iff)
  qed
qed








text \<open>
  Claim C10. Whenever the computed step \<open>(pct / 100) * boundaryWidth\<close> is zero, negative
  or not finite, the grid snap returns the proposed width unchanged (so a finite width
  stays finite); this is the case for every boundary width that is zero, negative,
  infinite or \<open>NaN\<close>.
\<close>

theorem snapWidth_degenerate_step:
  "(js_le (js_mul (js_div (clamp (gridPercent_of p) (Fin 1) (Fin 100)) (Fin 100)) b) (Fin 0)
      \<or> \<not> isFinite (js_mul (js_div (clamp (gridPercent_of p) (Fin 1) (Fin 100)) (Fin 100)) b)
     \<longrightarrow> snapWidth p w b = w \<and> (isFinite w \<longrightarrow> isFinite (snapWidth p w b)))
   \<and> (js_le b (Fin 0) \<or> \<not> isFinite b \<longrightarrow> snapWidth p w b = w)
   \<and> snapWidth p w (Fin 0) = w \<and> snapWidth p w PosInf = w"
proof (intro conjI impI)
  assume a: "js_le (js_mul (js_div (clamp (gridPercent_of p) (Fin 1) (Fin 100)) (Fin 100)) b) (Fin 0)
      \<or> \<not> isFinite (js_mul (js_div (clamp (gridPercent_of p) (Fin 1) (Fin 100)) (Fin 100)) b)"
  then show e: "snapWidth p w b = w" by (rule snapWidth_guard)
  assume "isFinite w"
  with e show "isFinite (snapWidth p w b)" by simp
next
  assume "js_le b (Fin 0) \<or> \<not> isFinite b"
  then show "snapWidth p w b = w"
    by (intro snapWidth_guard step_degenerate)
next
  show "snapWidth p w (Fin 0) = w"
    by (intro snapWidth_guard step_degenerate) simp
  show "snapWidth p w PosInf = w"
    by (intro snapWidth_guard step_degenerate) simp
qed

theorem snapWidth_degenerate_step_witness:
  "js_le (js_mul (js_div (clamp (gridPercent_of (scenario_params\<lparr>gridPercent := Some (Fin 25)\<rparr>))
       (Fin 1) (Fin 100)) (Fin 100)) (Fin 0)) (Fin 0)
   \<and> isFinite (Fin 270)
   \<and> snapWidth (scenario_params\<lparr>gridPercent := Some (Fin 25)\<rparr>) (Fin 270) (Fin 0) = Fin 270
   \<and> isFinite (snapWidth (scenario_params\<lparr>gridPercent := Some (Fin 25)\<rparr>) (Fin 270) (Fin 0))
   \<and> \<not> isFinite PosInf
   \<and> snapWidth (scenario_params\<lparr>gridPercent := Some (Fin 25)\<rparr>) (Fin 270) PosInf = Fin 270"
proof -
  let ?p = "scenario_params\<lparr>gridPercent := Some (Fin 25)\<rparr>"
  have h: "js_le (js_mul (js_div (clamp (gridPercent_of ?p) (Fin 1) (Fin 100)) (Fin 100)) (Fin 0)) (Fin 0)"
    by (simp add: scenario_params_def gridPercent_of_def clamp_def Math_max_def Math_min_def)
  have f: "isFinite (Fin 270)" "\<not> isFinite PosInf" by simp_all
  have "snapWidth ?p (Fin 270) (Fin 0) = Fin 270 \<and> isFinite (snapWidth ?p (Fin 270) (Fin 0))"
    using snapWidth_degenerate_step [where p = ?p and w = "Fin 270" and b = "Fin 0"] h f
    by blast
  moreover have "snapWidth ?p (Fin 270) PosInf = Fin 270"
    using snapWidth_degenerate_step [where p = ?p and w = "Fin 270" and b = PosInf] f
    by blast
  ultimately show ?thesis using h f by simp
qed

section \<open>Direction of the drag\<close>

lemma deltaX_mirror: "deltaX Left originX pageX = js_neg (deltaX Right originX pageX)"
  by (cases originX; cases pageX) (simp_all add: deltaX_def js_sub_def)

text \<open>
  Claim C8. The signed displacement is \<open>pageX - originX\<close> for a right handle and
  \<open>originX - pageX\<close> for a left handle, so each is the other's negation. A pointer that
  has moved by \<open>d\<close> to the left of the origin on a left handle and one that has moved by
  \<open>d\<close> to the right on a right handle give the same displacement \<open>d\<close>, the same proposed
  width, and the same stored dimensions.
\<close>

theorem deltaX_direction_symmetry:
  "deltaX Right originX pageX = js_sub pageX originX
   \<and> deltaX Left originX pageX = js_sub originX pageX
   \<and> deltaX Left originX pageX = js_neg (deltaX Right originX pageX)
   \<and> deltaX Left (Fin o1) (Fin (o1 - d)) = Fin d
   \<and> deltaX Right (Fin o1) (Fin (o1 + d)) = Fin d
   \<and> proposedW s pageX = js_add (width (startDimsRef s)) (deltaX (dirRef s) (originXRef s) pageX)
   \<and> proposedW (s\<lparr>originXRef := Fin o1, dirRef := Left\<rparr>) (Fin (o1 - d))
       = proposedW (s\<lparr>originXRef := Fin o1, dirRef := Right\<rparr>) (Fin (o1 + d))
   \<and> dimsRef (handlePointerMove p bw (Fin (o1 - d)) (s\<lparr>originXRef := Fin o1, dirRef := Left\<rparr>))
       = dimsRef (handlePointerMove p bw (Fin (o1 + d)) (s\<lparr>originXRef := Fin o1, dirRef := Right\<rparr>))"
proof (intro conjI)
  show "deltaX Left originX pageX = js_neg (deltaX Right originX pageX)"
    by (rule deltaX_mirror)
  show l: "deltaX Left (Fin o1) (Fin (o1 - d)) = Fin d"
    and r: "deltaX Right (Fin o1) (Fin (o1 + d)) = Fin d"
    by (simp_all add: deltaX_def js_sub_def)
  show "proposedW s pageX = js_add (width (startDimsRef s)) (deltaX (dirRef s) (originXRef s) pageX)"
    by (simp add: proposedW_def)
  show e: "proposedW (s\<lparr>originXRef := Fin o1, dirRef := Left\<rparr>) (Fin (o1 - d))
       = proposedW (s\<lparr>originXRef := Fin o1, dirRef := Right\<rparr>) (Fin (o1 + d))"
    by (simp add: proposedW_def l r)
  show "dimsRef (handlePointerMove p bw (Fin (o1 - d)) (s\<lparr>originXRef := Fin o1, dirRef := Left\<rparr>))
       = dimsRef (handlePointerMove p bw (Fin (o1 + d)) (s\<lparr>originXRef := Fin o1, dirRef := Right\<rparr>))"
    by (simp add: handlePointerMove_def e Let_def notifyLive_def setDims_def)
qed (simp_all add: deltaX_def)

theorem deltaX_direction_symmetry_witness:
  "deltaX Left (Fin 200) (Fin 150) = Fin 50
   \<and> deltaX Right (Fin 200) (Fin 250) = Fin 50
   \<and> deltaX Left (Fin 200) (Fin 250) = js_neg (deltaX Right (Fin 200) (Fin 250))
   \<and> proposedW ((useDragResize_init scenario_params)\<lparr>originXRef := Fin 200, dirRef := Left\<rparr>) (Fin 150)
       = proposedW ((useDragResize_init scenario_params)\<lparr>originXRef := Fin 200, dirRef := Right\<rparr>) (Fin 250)
   \<and> dimsRef (handlePointerMove scenario_params (Fin 500) (Fin 150)
         ((useDragResize_init scenario_params)\<lparr>originXRef := Fin 200, dirRef := Left\<rparr>))
       = dimsRef (handlePointerMove scenario_params (Fin 500) (Fin 250)
         ((useDragResize_init scenario_params)\<lparr>originXRef := Fin 200, dirRef := Right\<rparr>))
   \<and> dimsRef (handlePointerMove scenario_params (Fin 500) (Fin 250)
         ((useDragResize_init scenario_params)\<lparr>originXRef := Fin 200, dirRef := Right\<rparr>))
       = \<lparr>width = Fin 250, height = Fin 200\<rparr>"
proof -
  have e: "dimsRef (handlePointerMove scenario_params (Fin 500) (Fin 250)
         ((useDragResize_init scenario_params)\<lparr>originXRef := Fin 200, dirRef := Right\<rparr>))
       = \<lparr>width = Fin 250, height = Fin 200\<rparr>"
    by code_simp
  show ?thesis
    using deltaX_direction_symmetry [where ?o1.0 = 200 and d = 50 and originX = "Fin 200"
        and pageX = "Fin 250" and s = "useDragResize_init scenario_params"
        and p = scenario_params and bw = "Fin 500"] e
    by (simp add: js_sub_def)
qed

section \<open>The unlocked height\<close>

text \<open>
  Claim C5, as amended. Without aspect lock the resulting height is the last-known
  height clamped to \<open>[minHeight, maxHeight or Infinity]\<close>: raised to \<open>minHeight\<close> if below
  it, lowered to \<open>maxHeight\<close> if a \<open>maxHeight\<close> is supplied and the height is above it,
  and unchanged in between (bounds ordered).
\<close>

theorem constrainWH_free_height:
  "\<not> hasAspect p \<longrightarrow>
     height (constrainWH p cur w) =
       clamp (Math_max (height cur) (minHeight p)) (minHeight p) (nullish (maxHeight p) PosInf)
     \<and> (js_le (minHeight p) (nullish (maxHeight p) PosInf) \<and> js_lt (height cur) (minHeight p)
          \<longrightarrow> height (constrainWH p cur w) = minHeight p)
     \<and> (js_le (minHeight p) (height cur) \<and> js_le (height cur) (nullish (maxHeight p) PosInf)
          \<longrightarrow> height (constrainWH p cur w) = height cur)
     \<and> (js_le (minHeight p) (nullish (maxHeight p) PosInf)
          \<and> js_lt (nullish (maxHeight p) PosInf) (height cur)
          \<longrightarrow> height (constrainWH p cur w) = nullish (maxHeight p) PosInf)"
proof (intro impI conjI)
  assume f: "\<not> hasAspect p"
  then show "height (constrainWH p cur w) =
       clamp (Math_max (height cur) (minHeight p)) (minHeight p) (nullish (maxHeight p) PosInf)"
    by (rule constrainWH_height_free)
  {
    assume "js_le (minHeight p) (nullish (maxHeight p) PosInf) \<and> js_lt (height cur) (minHeight p)"
    then show "height (constrainWH p cur w) = minHeight p"
      unfolding constrainWH_height_free [OF f]
      by (cases "minHeight p"; cases "nullish (maxHeight p) PosInf"; cases "height cur")
        (simp_all add: clamp_def Math_min_def Math_max_def)
  }
  {
    assume "js_le (minHeight p) (height cur) \<and> js_le (height cur) (nullish (maxHeight p) PosInf)"
    then show "height (constrainWH p cur w) = height cur"
      unfolding constrainWH_height_free [OF f]
      by (cases "minHeight p"; cases "nullish (maxHeight p) PosInf"; cases "height cur")
        (simp_all add: clamp_def Math_min_def Math_max_def)
  }
  {
    assume "js_le (minHeight p) (nullish (maxHeight p) PosInf)
          \<and> js_lt (nullish (maxHeight p) PosInf) (height cur)"
    then show "height (constrainWH p cur w) = nullish (maxHeight p) PosInf"
      unfolding constrainWH_height_free [OF f]
      by (cases "minHeight p"; cases "nullish (maxHeight p) PosInf"; cases "height cur")
        (simp_all add: clamp_def Math_min_def Math_max_def)
  }
qed

theorem constrainWH_free_height_witness:
  "\<not> hasAspect capped_params
   \<and> js_le (minHeight capped_params) (nullish (maxHeight capped_params) PosInf)
   \<and> js_lt (Fin 50) (minHeight capped_params)
   \<and> height (constrainWH capped_params \<lparr>width = Fin 200, height = Fin 50\<rparr> (Fin 250)) = Fin 100
   \<and> js_le (minHeight capped_params) (Fin 200)
   \<and> js_le (Fin 200) (nullish (maxHeight capped_params) PosInf)
   \<and> height (constrainWH capped_params \<lparr>width = Fin 200, height = Fin 200\<rparr> (Fin 250)) = Fin 200
   \<and> js_lt (nullish (maxHeight capped_params) PosInf) (Fin 400)
   \<and> height (constrainWH capped_params \<lparr>width = Fin 200, height = Fin 400\<rparr> (Fin 250)) = Fin 300"
proof -
  let ?hi = "nullish (maxHeight capped_params) PosInf"
  have v: "minHeight capped_params = Fin 100" "?hi = Fin 300"
    and f: "\<not> hasAspect capped_params"
    by (simp_all add: capped_params_def scenario_params_def hasAspect_def)
  have b: "js_le (minHeight capped_params) ?hi"
    and h1: "js_lt (height \<lparr>width = Fin 200, height = Fin 50\<rparr>) (minHeight capped_params)"
    and h2: "js_le (minHeight capped_params) (height \<lparr>width = Fin 200, height = Fin 200\<rparr>)"
      "js_le (height \<lparr>width = Fin 200, height = Fin 200\<rparr>) ?hi"
    and h3: "js_lt ?hi (height \<lparr>width = Fin 200, height = Fin 400\<rparr>)"
    by (simp_all add: v)
  have "height (constrainWH capped_params \<lparr>width = Fin 200, height = Fin 50\<rparr> (Fin 250))
      = minHeight capped_params"
    using constrainWH_free_height [where p = capped_params and w = "Fin 250"
        and cur = "\<lparr>width = Fin 200, height = Fin 50\<rparr>"] f b h1
    by blast
  moreover have "height (constrainWH capped_params \<lparr>width = Fin 200, height = Fin 200\<rparr> (Fin 250))
      = height \<lparr>width = Fin 200, height = Fin 200\<rparr>"
    using constrainWH_free_height [where p = capped_params and w = "Fin 250"
        and cur = "\<lparr>width = Fin 200, height = Fin 200\<rparr>"] f h2
    by blast
  moreover have "height (constrainWH capped_params \<lparr>width = Fin 200, height = Fin 400\<rparr> (Fin 250))
      = ?hi"
    using constrainWH_free_height [where p = capped_params and w = "Fin 250"
        and cur = "\<lparr>width = Fin 200, height = Fin 400\<rparr>"] f b h3
    by blast
  ultimately show ?thesis using f by (simp add: v)
qed

theorem free_height_counterexample:
  "\<not> hasAspect capped_params
   \<and> height (constrainWH capped_params \<lparr>width = Fin 200, height = Fin 400\<rparr> (Fin 250)) = Fin 300
   \<and> spec_free_height (minHeight capped_params) (Fin 400) = Fin 400
   \<and> height (constrainWH capped_params \<lparr>width = Fin 200, height = Fin 400\<rparr> (Fin 250))
       \<noteq> spec_free_height (minHeight capped_params) (Fin 400)
   \<and> dimsRef (run capped_params (useDragResize_init capped_params) [PointerDown Right None (Fin 200)])
       = \<lparr>width = Fin 200, height = Fin 400\<rparr>
   \<and> dimsRef (run capped_params (useDragResize_init capped_params)
        [PointerDown Right None (Fin 200), PointerMove (Fin 250)])
       = \<lparr>width = Fin 250, height = Fin 300\<rparr>"
  by code_simp

section \<open>Notification of the owner\<close>

lemma calls_handlePointerMove [simp]: "calls (handlePointerMove p bw x s) = calls s"
  by (simp add: handlePointerMove_def Let_def notifyLive_def setDims_def)

lemma listeners_handlePointerMove [simp]:
  "listeners (handlePointerMove p bw x s) = listeners s
   \<and> activeListenersRef (handlePointerMove p bw x s) = activeListenersRef s"
  by (simp add: handlePointerMove_def Let_def notifyLive_def setDims_def)

lemma raf_handlePointerMove:
  "\<not> live_of p \<Longrightarrow> rafIdRef (handlePointerMove p bw x s) = rafIdRef s"
  by (simp add: handlePointerMove_def Let_def notifyLive_def setDims_def)

lemma dispatch_move_fields:
  "calls (dispatch_move p x ls s) = calls s
   \<and> listeners (dispatch_move p x ls s) = listeners s
   \<and> activeListenersRef (dispatch_move p x ls s) = activeListenersRef s"
  by (induction ls arbitrary: s) simp_all

lemma raf_dispatch_move:
  "\<not> live_of p \<Longrightarrow> rafIdRef (dispatch_move p x ls s) = rafIdRef s"
  by (induction ls arbitrary: s) (simp_all add: raf_handlePointerMove)

lemma handlePointerUp_calls:
  "calls (handlePointerUp p s) = (if onDimensionsChange p then calls s @ [dimsRef s] else calls s)"
  by (simp add: handlePointerUp_def cleanup_def removeEventListener_def Let_def
      split: option.splits)

lemma handlePointerUp_fields:
  "dimsRef (handlePointerUp p s) = dimsRef s \<and> \<not> rafIdRef (handlePointerUp p s)
   \<and> activeListenersRef (handlePointerUp p s) = None \<and> \<not> isResizing (handlePointerUp p s)"
  by (simp add: handlePointerUp_def cleanup_def removeEventListener_def Let_def
      split: option.splits)

lemma raf_dispatch_up: "\<not> rafIdRef s \<Longrightarrow> \<not> rafIdRef (dispatch_up p ls s)"
  by (induction ls arbitrary: s) (simp_all add: handlePointerUp_fields)

lemma raf_step_not_live:
  "\<not> live_of p \<Longrightarrow> \<not> rafIdRef s \<Longrightarrow> \<not> rafIdRef (step p s ev)"
  by (cases ev)
    (simp_all add: initiateResize_def Let_def raf_dispatch_move raf_dispatch_up cleanup_def
      removeEventListener_def animationFrame_def setDims_def split: option.splits)

lemma raf_run_not_live:
  "\<not> live_of p \<Longrightarrow> \<not> rafIdRef s \<Longrightarrow> \<not> rafIdRef (run p s evs)"
  unfolding run_def
  by (induction evs arbitrary: s) (simp_all add: raf_step_not_live)

lemma raf_init: "\<not> rafIdRef (useDragResize_init p)"
  by (simp add: useDragResize_init_def Let_def)

lemma calls_drag_step:
  "\<not> live_of p \<Longrightarrow> \<not> rafIdRef s \<Longrightarrow> drag_event ev \<Longrightarrow> calls (step p s ev) = calls s"
  by (cases ev) (simp_all add: animationFrame_def dispatch_move_fields)

lemma calls_drag_run:
  "\<not> live_of p \<Longrightarrow> \<not> rafIdRef s \<Longrightarrow> list_all drag_event evs \<Longrightarrow> calls (run p s evs) = calls s"
  unfolding run_def
proof (induction evs arbitrary: s)
  case Nil
  then show ?case by simp
next
  case (Cons ev evs)
  then have "\<not> rafIdRef (step p s ev)" by (simp add: raf_step_not_live)
  with Cons show ?case by (simp add: calls_drag_step)
qed

lemma listeners_drag_step:
  "drag_event ev \<Longrightarrow> listeners (step p s ev) = listeners s
     \<and> activeListenersRef (step p s ev) = activeListenersRef s"
  by (cases ev) (simp_all add: animationFrame_def dispatch_move_fields)

lemma listeners_drag_run:
  "list_all drag_event evs \<Longrightarrow> listeners (run p s evs) = listeners s
     \<and> activeListenersRef (run p s evs) = activeListenersRef s"
  unfolding run_def
  by (induction evs arbitrary: s) (simp_all add: listeners_drag_step)

lemma pointerUp_single:
  "listeners s = [l] \<Longrightarrow> step p s PointerUp = handlePointerUp p s"
  by (simp add: attached_def)

lemma initiate_fresh:
  "listeners s = [] \<Longrightarrow>
   listeners (initiateResize p d b x s)
     = [\<lparr>l_id = nextListener s, l_boundaryWidth = nullish b (maxWidth p)\<rparr>]
   \<and> calls (initiateResize p d b x s) = calls s
   \<and> rafIdRef (initiateResize p d b x s) = rafIdRef s"
  by (simp add: initiateResize_def Let_def)

text \<open>
  Claim C4. With \<open>live = false\<close> no handler invokes \<open>onDimensionsChange\<close> or schedules
  a frame callback during a pointer-move, so at any point of a controller's life a
  stretch of pointer moves (and frames) adds no invocation. A gesture that starts with
  no handler attached (down, moves, up) invokes the callback exactly once, at the
  release, with the final dimensions. But \<open>initiateResize\<close> attaches a new pair of
  handlers without removing the pair that is attached, and \<open>cleanup\<close> removes only the
  pair recorded last: after three pointer-downs with no pointer-up in between, one
  pointer-up runs two up handlers and the callback is invoked twice, and two pairs of
  handlers stay attached.
\<close>

theorem onDimensionsChange_notification:
  "(\<not> live_of p \<longrightarrow> calls (handlePointerMove p bw x s) = calls s
        \<and> rafIdRef (handlePointerMove p bw x s) = rafIdRef s)
   \<and> (\<not> live_of p \<and> list_all drag_event evs
        \<longrightarrow> calls (run p (run p (useDragResize_init p) hist) evs)
            = calls (run p (useDragResize_init p) hist))
   \<and> (listeners s = [l] \<and> onDimensionsChange p
        \<longrightarrow> calls (step p s PointerUp) = calls s @ [dimsRef s]
          \<and> dimsRef (step p s PointerUp) = dimsRef s)
   \<and> (\<not> onDimensionsChange p \<longrightarrow> calls (handlePointerUp p s) = calls s)
   \<and> (listeners s = [] \<and> \<not> rafIdRef s \<and> \<not> live_of p \<and> onDimensionsChange p
        \<and> list_all drag_event evs
        \<longrightarrow> calls (run p s (PointerDown d b x0 # evs @ [PointerUp]))
            = calls s @ [dimsRef (run p s (PointerDown d b x0 # evs))]
          \<and> listeners (run p s (PointerDown d b x0 # evs @ [PointerUp])) = [])
   \<and> calls (run callback_params (useDragResize_init callback_params)
        [PointerDown Right None (Fin 200), PointerDown Right None (Fin 200),
         PointerDown Right None (Fin 200), PointerMove (Fin 250), PointerUp])
      = [\<lparr>width = Fin 250, height = Fin 200\<rparr>, \<lparr>width = Fin 250, height = Fin 200\<rparr>]
   \<and> listeners (run callback_params (useDragResize_init callback_params)
        [PointerDown Right None (Fin 200), PointerDown Right None (Fin 200),
         PointerDown Right None (Fin 200), PointerMove (Fin 250), PointerUp])
      = [\<lparr>l_id = 0, l_boundaryWidth = Fin 500\<rparr>, \<lparr>l_id = 1, l_boundaryWidth = Fin 500\<rparr>]"
proof (intro conjI impI)
  assume "\<not> live_of p"
  then show "rafIdRef (handlePointerMove p bw x s) = rafIdRef s"
    by (rule raf_handlePointerMove)
next
  assume "\<not> live_of p \<and> list_all drag_event evs"
  then show "calls (run p (run p (useDragResize_init p) hist) evs)
            = calls (run p (useDragResize_init p) hist)"
    by (simp add: calls_drag_run raf_run_not_live raf_init)
next
  assume a: "listeners s = [l] \<and> onDimensionsChange p"
  then have u: "step p s PointerUp = handlePointerUp p s"
    using pointerUp_single by blast
  from a show "calls (step p s PointerUp) = calls s @ [dimsRef s]"
    unfolding u by (simp add: handlePointerUp_calls)
  show "dimsRef (step p s PointerUp) = dimsRef s"
    unfolding u by (simp add: handlePointerUp_fields)
next
  assume "\<not> onDimensionsChange p"
  then show "calls (handlePointerUp p s) = calls s"
    by (simp add: handlePointerUp_calls)
next
  assume a: "listeners s = [] \<and> \<not> rafIdRef s \<and> \<not> live_of p \<and> onDimensionsChange p
        \<and> list_all drag_event evs"
  let ?l = "\<lparr>l_id = nextListener s, l_boundaryWidth = nullish b (maxWidth p)\<rparr>"
  let ?s1 = "step p s (PointerDown d b x0)"
  let ?s2 = "run p ?s1 evs"
  from a have l1: "listeners ?s1 = [?l]" and c1: "calls ?s1 = calls s"
    and r1: "\<not> rafIdRef ?s1"
    by (simp_all add: initiate_fresh)
  have a1: "activeListenersRef ?s1 = Some ?l" by (simp add: initiateResize_def Let_def)
  from a r1 have c2: "calls ?s2 = calls ?s1" by (simp add: calls_drag_run)
  from a l1 a1 have l2: "listeners ?s2 = [?l]" and a2: "activeListenersRef ?s2 = Some ?l"
    by (simp_all add: listeners_drag_run)
  have e1: "run p s (PointerDown d b x0 # evs @ [PointerUp]) = step p ?s2 PointerUp"
    by (simp add: run_def)
  have e2: "run p s (PointerDown d b x0 # evs) = ?s2" by (simp add: run_def)
  from l2 have u: "step p ?s2 PointerUp = handlePointerUp p ?s2"
    by (rule pointerUp_single)
  from a have "calls (step p ?s2 PointerUp) = calls ?s2 @ [dimsRef ?s2]"
    unfolding u by (simp add: handlePointerUp_calls)
  then show "calls (run p s (PointerDown d b x0 # evs @ [PointerUp]))
            = calls s @ [dimsRef (run p s (PointerDown d b x0 # evs))]"
    unfolding e1 e2 using c1 c2 by simp
  from l2 a2 show "listeners (run p s (PointerDown d b x0 # evs @ [PointerUp])) = []"
    unfolding e1 u
    by (simp add: handlePointerUp_def cleanup_def removeEventListener_def Let_def)
next
  show "calls (run callback_params (useDragResize_init callback_params)
        [PointerDown Right None (Fin 200), PointerDown Right None (Fin 200),
         PointerDown Right None (Fin 200), PointerMove (Fin 250), PointerUp])
      = [\<lparr>width = Fin 250, height = Fin 200\<rparr>, \<lparr>width = Fin 250, height = Fin 200\<rparr>]"
    by code_simp
  show "listeners (run callback_params (useDragResize_init callback_params)
        [PointerDown Right None (Fin 200), PointerDown Right None (Fin 200),
         PointerDown Right None (Fin 200), PointerMove (Fin 250), PointerUp])
      = [\<lparr>l_id = 0, l_boundaryWidth = Fin 500\<rparr>, \<lparr>l_id = 1, l_boundaryWidth = Fin 500\<rparr>]"
    by code_simp
qed simp


theorem onDimensionsChange_notification_witness:
  "\<not> live_of callback_params \<and> onDimensionsChange callback_params
   \<and> list_all drag_event [PointerMove (Fin 250), AnimationFrame, PointerMove (Fin 300)]
   \<and> calls (handlePointerMove callback_params (Fin 500) (Fin 250)
         (run callback_params (useDragResize_init callback_params) [PointerDown Right None (Fin 200)]))
       = []
   \<and> calls (run callback_params
         (run callback_params (useDragResize_init callback_params) [PointerDown Right None (Fin 200)])
         [PointerMove (Fin 250), AnimationFrame, PointerMove (Fin 300)]) = []
   \<and> listeners (useDragResize_init callback_params) = []
   \<and> \<not> rafIdRef (useDragResize_init callback_params)
   \<and> calls (run callback_params (useDragResize_init callback_params)
         (PointerDown Right None (Fin 200)
           # [PointerMove (Fin 250), AnimationFrame, PointerMove (Fin 300)] @ [PointerUp]))
       = [\<lparr>width = Fin 300, height = Fin 200\<rparr>]
   \<and> listeners (run callback_params (useDragResize_init callback_params)
         (PointerDown Right None (Fin 200)
           # [PointerMove (Fin 250), AnimationFrame, PointerMove (Fin 300)] @ [PointerUp])) = []
   \<and> live_of live_params \<and> onDimensionsChange live_params
   \<and> listeners (run live_params (useDragResize_init live_params)
         [PointerDown Right None (Fin 200), PointerMove (Fin 250)])
       = [\<lparr>l_id = 0, l_boundaryWidth = Fin 500\<rparr>]
   \<and> calls (step live_params (run live_params (useDragResize_init live_params)
         [PointerDown Right None (Fin 200), PointerMove (Fin 250)]) PointerUp)
       = [\<lparr>width = Fin 250, height = Fin 200\<rparr>]
   \<and> \<not> onDimensionsChange scenario_params
   \<and> calls (handlePointerUp scenario_params (run scenario_params (useDragResize_init scenario_params)
         [PointerDown Right None (Fin 200), PointerMove (Fin 250)])) = []"
proof -
  let ?evs = "[PointerMove (Fin 250), AnimationFrame, PointerMove (Fin 300)]"
  let ?s0 = "useDragResize_init callback_params"
  let ?s1 = "run callback_params ?s0 [PointerDown Right None (Fin 200)]"
  let ?sl = "run live_params (useDragResize_init live_params)
      [PointerDown Right None (Fin 200), PointerMove (Fin 250)]"
  let ?sn = "run scenario_params (useDragResize_init scenario_params)
      [PointerDown Right None (Fin 200), PointerMove (Fin 250)]"
  let ?l = "\<lparr>l_id = 0, l_boundaryWidth = Fin 500\<rparr>"
  have l: "\<not> live_of callback_params" and c: "onDimensionsChange callback_params"
    and ll: "live_of live_params" and lc: "onDimensionsChange live_params"
    and n: "\<not> onDimensionsChange scenario_params"
    by (simp_all add: callback_params_def live_params_def scenario_params_def live_of_def)
  have d: "list_all drag_event ?evs" by simp
  have e0: "calls ?s0 = []" "calls ?s1 = []" "calls ?sl = []" "calls ?sn = []"
    by code_simp+
  have f: "listeners ?s0 = []" "\<not> rafIdRef ?s0"
    by (simp_all add: useDragResize_init_def Let_def)
  have e1: "dimsRef (run callback_params ?s0 (PointerDown Right None (Fin 200) # ?evs))
      = \<lparr>width = Fin 300, height = Fin 200\<rparr>"
    by code_simp
  have e2: "dimsRef ?sl = \<lparr>width = Fin 250, height = Fin 200\<rparr>" by code_simp
  have a: "listeners ?sl = [?l]" by code_simp
  have "calls (handlePointerMove callback_params (Fin 500) (Fin 250) ?s1) = calls ?s1"
    using onDimensionsChange_notification [where p = callback_params and bw = "Fin 500"
        and x = "Fin 250" and s = ?s1 and evs = "[]" and hist = "[]" and l = ?l] l
    by blast
  moreover have "calls (run callback_params ?s1 ?evs) = calls ?s1"
    using onDimensionsChange_notification [where p = callback_params and evs = ?evs
        and hist = "[PointerDown Right None (Fin 200)]" and s = ?s1 and l = ?l] l d
    by blast
  moreover have "calls (run callback_params ?s0 (PointerDown Right None (Fin 200) # ?evs @ [PointerUp]))
      = calls ?s0 @ [dimsRef (run callback_params ?s0 (PointerDown Right None (Fin 200) # ?evs))]
    \<and> listeners (run callback_params ?s0 (PointerDown Right None (Fin 200) # ?evs @ [PointerUp])) = []"
    using onDimensionsChange_notification [where p = callback_params and evs = ?evs
        and hist = "[]" and s = ?s0 and d = Right and b = None and ?x0.0 = "Fin 200" and l = ?l]
      l c d f
    by blast
  moreover have "calls (step live_params ?sl PointerUp) = calls ?sl @ [dimsRef ?sl]"
    using onDimensionsChange_notification [where p = live_params and s = ?sl and evs = "[]"
        and hist = "[]" and l = ?l] a lc
    by blast
  moreover have "calls (handlePointerUp scenario_params ?sn) = calls ?sn"
    using onDimensionsChange_notification [where p = scenario_params and s = ?sn and evs = "[]"
        and hist = "[]" and l = ?l] n
    by blast
  ultimately show ?thesis using l c ll lc n d a f by (simp add: e0 e1 e2)
qed

section \<open>The dimensions invariant\<close>

lemma js_lt_le_trans: "js_lt a b \<Longrightarrow> js_le b c \<Longrightarrow> js_lt a c"
  by (cases a; cases b; cases c) simp_all

lemma Math_max_not_NaN: "\<not> isNaN a \<Longrightarrow> \<not> isNaN b \<Longrightarrow> \<not> isNaN (Math_max a b)"
  by (simp add: Math_max_def)

lemma snapWidth_not_NaN: "\<not> isNaN w \<Longrightarrow> \<not> isNaN (snapWidth p w b)"
proof -
  assume w: "\<not> isNaN w"
  let ?step = "js_mul (js_div (clamp (gridPercent_of p) (Fin 1) (Fin 100)) (Fin 100)) b"
  show ?thesis
  proof (cases "js_eq (clamp (gridPercent_of p) (Fin 1) (Fin 100)) (Fin 100)
      \<or> js_le ?step (Fin 0) \<or> \<not> isFinite ?step")
    case True
    then have "snapWidth p w b = w" by (auto simp: snapWidth_def Let_def)
    with w show ?thesis by simp
  next
    case False
    then obtain st where st: "?step = Fin st" "0 < st"
      by (cases ?step) auto
    with False have "snapWidth p w b = js_mul (Math_round (js_div w (Fin st))) (Fin st)"
      by (simp add: snapWidth_def Let_def)
    with w st show ?thesis by (cases w) (simp_all add: signed_inf_def)
  qed
qed

lemma proposedW_not_NaN:
  "\<not> isNaN (width (startDimsRef s)) \<Longrightarrow> isFinite (originXRef s) \<Longrightarrow> isFinite x
   \<Longrightarrow> \<not> isNaN (proposedW s x)"
  by (cases "width (startDimsRef s)"; cases "originXRef s"; cases x)
    (simp_all add: proposedW_def deltaX_def js_sub_def)

lemma locked_height_not_NaN:
  assumes "positive_finite (Some cw)" "positive_finite (Some ch)"
    and "js_lt (Fin 0) c"
  shows "\<not> isNaN (js_mul c (js_div ch cw))"
proof -
  from assms obtain a b where "cw = Fin b" "0 < b" "ch = Fin a" "0 < a"
    by (cases cw; cases ch) simp_all
  with assms(3) show ?thesis by (cases c) (simp_all add: signed_inf_def)
qed

lemma constrainWH_in_box:
  assumes v: "valid_params p" and w: "\<not> isNaN w"
    and h: "hasAspect p \<or> \<not> isNaN (height cur)"
  shows "spec_dimensions_invariant p (constrainWH p cur w)"
proof -
  let ?cw = "clamp w (minWidth p) (maxWidth p)"
  let ?hi = "nullish (maxHeight p) PosInf"
  from v have b: "js_le (minWidth p) (maxWidth p)" "js_lt (Fin 0) (minWidth p)"
    "js_le (minHeight p) ?hi" "js_lt (Fin 0) (minHeight p)"
    by (simp_all add: valid_params_def)
  from b w have cw: "js_le (minWidth p) ?cw" "js_le ?cw (maxWidth p)"
    by (simp_all add: clamp_bounds)
  with b have cw0: "js_lt (Fin 0) ?cw" by (blast intro: js_lt_le_trans)
  let ?h = "if hasAspect p then js_mul ?cw (aspect p) else Math_max (height cur) (minHeight p)"
  have hn: "\<not> isNaN ?h"
  proof (cases "hasAspect p")
    case True
    then obtain c1 c2 where c: "contentWidth p = Some c1" "contentHeight p = Some c2"
      by (auto simp: hasAspect_def)
    with v have "positive_finite (Some c1)" "positive_finite (Some c2)"
      by (simp_all add: valid_params_def)
    with cw0 have "\<not> isNaN (js_mul ?cw (js_div c2 c1))" by (rule locked_height_not_NaN [rotated 2])
    with True c show ?thesis by (simp add: aspect_def)
  next
    case False
    with h have "\<not> isNaN (height cur)" by simp
    moreover from b have "\<not> isNaN (minHeight p)" using js_le_not_NaN by blast
    ultimately show ?thesis using False by (simp add: Math_max_not_NaN)
  qed
  have eh: "height (constrainWH p cur w) = clamp ?h (minHeight p) ?hi"
    by (simp add: constrainWH_def Let_def)
  from clamp_bounds [OF b(3) hn] have ch: "js_le (minHeight p) (clamp ?h (minHeight p) ?hi)"
    "js_le (clamp ?h (minHeight p) ?hi) ?hi"
    by blast+
  with b have ch0: "js_lt (Fin 0) (clamp ?h (minHeight p) ?hi)" by (blast intro: js_lt_le_trans)
  show ?thesis
    unfolding spec_dimensions_invariant_def constrainWH_width eh
    using cw cw0 ch ch0 by simp
qed

lemma inv_not_NaN:
  "spec_dimensions_invariant p d \<Longrightarrow> \<not> isNaN (width d) \<and> \<not> isNaN (height d)"
  unfolding spec_dimensions_invariant_def using js_le_not_NaN by blast

lemma drag_inv_move:
  assumes v: "valid_params p" and i: "drag_inv p s" and x: "isFinite x"
  shows "drag_inv p (handlePointerMove p bw x s)"
proof -
  let ?next = "constrainWH p (dimsRef s) (snapWidth p (proposedW s x) bw)"
  from i x have "\<not> isNaN (proposedW s x)"
    by (simp add: drag_inv_def proposedW_not_NaN)
  then have "\<not> isNaN (snapWidth p (proposedW s x) bw)" by (rule snapWidth_not_NaN)
  moreover from i have "\<not> isNaN (height (dimsRef s))"
    using inv_not_NaN by (auto simp: drag_inv_def)
  ultimately have "spec_dimensions_invariant p ?next"
    using v by (simp add: constrainWH_in_box)
  with i show ?thesis
    by (simp add: drag_inv_def handlePointerMove_def Let_def notifyLive_def setDims_def)
qed

lemma drag_inv_dispatch_move:
  "valid_params p \<Longrightarrow> drag_inv p s \<Longrightarrow> isFinite x \<Longrightarrow> drag_inv p (dispatch_move p x ls s)"
  by (induction ls arbitrary: s) (simp_all add: drag_inv_move)

lemma drag_inv_up: "drag_inv p s \<Longrightarrow> drag_inv p (handlePointerUp p s)"
  by (simp add: drag_inv_def handlePointerUp_def cleanup_def removeEventListener_def Let_def
      split: option.splits)

lemma drag_inv_dispatch_up: "drag_inv p s \<Longrightarrow> drag_inv p (dispatch_up p ls s)"
  by (induction ls arbitrary: s) (simp_all add: drag_inv_up)

lemma drag_inv_step:
  assumes v: "valid_params p" and i: "drag_inv p s" and a: "admissible p ev"
  shows "drag_inv p (step p s ev)"
proof (cases ev)
  case (PointerDown d b x)
  from v have "js_le (minWidth p) (maxWidth p)" by (simp add: valid_params_def)
  moreover from i have "\<not> isNaN (width (dimensions s))"
    using inv_not_NaN by (auto simp: drag_inv_def)
  ultimately have "\<not> isNaN (clamp (width (dimensions s)) (minWidth p) (maxWidth p))"
    using clamp_bounds js_le_not_NaN by blast
  with i a PointerDown show ?thesis
    by (simp add: drag_inv_def initiateResize_def Let_def)
next
  case (PointerMove x)
  with v i a show ?thesis by (simp add: drag_inv_dispatch_move)
next
  case PointerUp
  with i show ?thesis by (simp add: drag_inv_dispatch_up)
next
  case AnimationFrame
  with i show ?thesis by (simp add: drag_inv_def animationFrame_def)
next
  case (SetDimensions d)
  with i a show ?thesis by (simp add: drag_inv_def setDims_def)
next
  case Unmount
  with i show ?thesis
    by (simp add: drag_inv_def cleanup_def removeEventListener_def Let_def split: option.splits)
qed

lemma drag_inv_run:
  "valid_params p \<Longrightarrow> drag_inv p s \<Longrightarrow> list_all (admissible p) evs \<Longrightarrow> drag_inv p (run p s evs)"
  unfolding run_def
  by (induction evs arbitrary: s) (simp_all add: drag_inv_step)

lemma drag_inv_init:
  "spec_dimensions_invariant p (dimensions (useDragResize_init p)) \<Longrightarrow> drag_inv p (useDragResize_init p)"
  using inv_not_NaN [of p "dimensions (useDragResize_init p)"]
  by (simp add: drag_inv_def useDragResize_init_def Let_def)

lemma init_default_in_box:
  assumes "valid_params p" "initialWidth p = None" "initialHeight p = None"
  shows "spec_dimensions_invariant p (dimensions (useDragResize_init p))"
proof -
  from assms(1) have "js_lt (Fin 0) (minWidth p)" "js_le (minWidth p) (maxWidth p)"
    "js_lt (Fin 0) (minHeight p)" "js_le (minHeight p) (nullish (maxHeight p) PosInf)"
    by (simp_all add: valid_params_def)
  moreover from this have "js_le (minWidth p) (minWidth p)" "js_le (minHeight p) (minHeight p)"
    by (cases "minWidth p"; cases "minHeight p"; simp)+
  ultimately show ?thesis using assms(2,3)
    by (simp add: spec_dimensions_invariant_def useDragResize_init_def Let_def)
qed

lemma current_at_least_min:
  "\<not> isNaN a \<Longrightarrow> \<not> isNaN m \<Longrightarrow> js_le m (Math_max a m)"
  by (cases a; cases m) (auto simp: Math_max_def)



text \<open>
  Claim C6, as amended. For a valid configuration, every dimensions value that the
  constrain step produces has both components positive and lies within
  \<open>[minWidth, maxWidth] x [minHeight, maxHeight or Infinity]\<close>. Initialization stores
  \<open>initialWidth ?? minWidth\<close> and \<open>initialHeight ?? minHeight\<close> as given and
  \<open>setDimensions\<close> stores its argument as given, neither clamped. So the dimensions
  state satisfies the invariant at every point of the controller's life provided it
  does initially (as it does when \<open>initialWidth\<close> and \<open>initialHeight\<close> are omitted),
  every override passes dimensions that satisfy it, and the pointer coordinates are
  finite. The \<open>currentWidth\<close> and \<open>currentHeight\<close> that the hook returns are never below
  the minimum.
\<close>

theorem dimensions_invariant_preserved:
  "(valid_params p \<and> \<not> isNaN w \<and> (hasAspect p \<or> \<not> isNaN (height cur))
      \<longrightarrow> spec_dimensions_invariant p (constrainWH p cur w))
   \<and> (valid_params p \<and> spec_dimensions_invariant p (dimensions (useDragResize_init p))
        \<and> list_all (admissible p) evs
      \<longrightarrow> spec_dimensions_invariant p (dimensions (run p (useDragResize_init p) evs)))
   \<and> (valid_params p \<and> initialWidth p = None \<and> initialHeight p = None
      \<longrightarrow> spec_dimensions_invariant p (dimensions (useDragResize_init p)))
   \<and> dimensions (useDragResize_init p)
       = \<lparr>width = nullish (initialWidth p) (minWidth p),
          height = nullish (initialHeight p) (minHeight p)\<rparr>
   \<and> dimensions (step p s (SetDimensions d)) = d
   \<and> (\<not> isNaN (minWidth p) \<and> \<not> isNaN (width (dimensions s))
      \<longrightarrow> js_le (minWidth p) (currentWidth p s))
   \<and> (\<not> isNaN (minHeight p) \<and> \<not> isNaN (height (dimensions s))
      \<longrightarrow> js_le (minHeight p) (currentHeight p s))"
proof (intro conjI impI)
  assume "valid_params p \<and> \<not> isNaN w \<and> (hasAspect p \<or> \<not> isNaN (height cur))"
  then show "spec_dimensions_invariant p (constrainWH p cur w)"
    by (simp add: constrainWH_in_box)
next
  assume a: "valid_params p \<and> spec_dimensions_invariant p (dimensions (useDragResize_init p))
        \<and> list_all (admissible p) evs"
  then have "drag_inv p (useDragResize_init p)" by (simp add: drag_inv_init)
  with a have "drag_inv p (run p (useDragResize_init p) evs)" by (simp add: drag_inv_run)
  then show "spec_dimensions_invariant p (dimensions (run p (useDragResize_init p) evs))"
    by (simp add: drag_inv_def)
next
  assume "valid_params p \<and> initialWidth p = None \<and> initialHeight p = None"
  then show "spec_dimensions_invariant p (dimensions (useDragResize_init p))"
    by (simp add: init_default_in_box)
next
  show "dimensions (useDragResize_init p)
       = \<lparr>width = nullish (initialWidth p) (minWidth p),
          height = nullish (initialHeight p) (minHeight p)\<rparr>"
    by (simp add: useDragResize_init_def Let_def)
  show "dimensions (step p s (SetDimensions d)) = d" by (simp add: setDims_def)
next
  assume "\<not> isNaN (minWidth p) \<and> \<not> isNaN (width (dimensions s))"
  then show "js_le (minWidth p) (currentWidth p s)"
    by (simp add: currentWidth_def current_at_least_min)
next
  assume "\<not> isNaN (minHeight p) \<and> \<not> isNaN (height (dimensions s))"
  then show "js_le (minHeight p) (currentHeight p s)"
    by (simp add: currentHeight_def current_at_least_min)
qed

theorem dimensions_invariant_preserved_witness:
  "valid_params scenario_params \<and> \<not> isNaN (Fin 9000)
   \<and> \<not> isNaN (height \<lparr>width = Fin 200, height = Fin 200\<rparr>)
   \<and> spec_dimensions_invariant scenario_params
       (constrainWH scenario_params \<lparr>width = Fin 200, height = Fin 200\<rparr> (Fin 9000))
   \<and> spec_dimensions_invariant scenario_params (dimensions (useDragResize_init scenario_params))
   \<and> list_all (admissible scenario_params)
       [PointerDown Right None (Fin 200), PointerMove (Fin 9000), PointerUp,
        SetDimensions \<lparr>width = Fin 350, height = Fin 250\<rparr>]
   \<and> spec_dimensions_invariant scenario_params
       (dimensions (run scenario_params (useDragResize_init scenario_params)
         [PointerDown Right None (Fin 200), PointerMove (Fin 9000), PointerUp,
          SetDimensions \<lparr>width = Fin 350, height = Fin 250\<rparr>]))
   \<and> valid_params (scenario_params\<lparr>initialWidth := None, initialHeight := None\<rparr>)
   \<and> spec_dimensions_invariant (scenario_params\<lparr>initialWidth := None, initialHeight := None\<rparr>)
       (dimensions (useDragResize_init (scenario_params\<lparr>initialWidth := None, initialHeight := None\<rparr>)))
   \<and> \<not> isNaN (minWidth scenario_params)
   \<and> \<not> isNaN (width (dimensions (useDragResize_init scenario_params)))
   \<and> js_le (minWidth scenario_params) (currentWidth scenario_params (useDragResize_init scenario_params))
   \<and> \<not> isNaN (minHeight scenario_params)
   \<and> \<not> isNaN (height (dimensions (useDragResize_init scenario_params)))
   \<and> js_le (minHeight scenario_params) (currentHeight scenario_params (useDragResize_init scenario_params))"
proof -
  let ?p = scenario_params
  let ?q = "scenario_params\<lparr>initialWidth := None, initialHeight := None\<rparr>"
  let ?cur = "\<lparr>width = Fin 200, height = Fin 200\<rparr>"
  let ?evs = "[PointerDown Right None (Fin 200), PointerMove (Fin 9000), PointerUp,
        SetDimensions \<lparr>width = Fin 350, height = Fin 250\<rparr>]"
  have v: "valid_params ?p" "valid_params ?q"
    by (simp_all add: valid_params_def scenario_params_def)
  have i: "spec_dimensions_invariant ?p (dimensions (useDragResize_init ?p))"
    by (simp add: spec_dimensions_invariant_def useDragResize_init_def scenario_params_def Let_def)
  have a: "list_all (admissible ?p) ?evs"
    by (simp add: spec_dimensions_invariant_def scenario_params_def)
  have n: "\<not> isNaN (Fin 9000)" "\<not> isNaN (height ?cur)" "\<not> isNaN (minWidth ?p)"
    "\<not> isNaN (minHeight ?p)" "\<not> isNaN (width (dimensions (useDragResize_init ?p)))"
    "\<not> isNaN (height (dimensions (useDragResize_init ?p)))"
    by (simp_all add: useDragResize_init_def scenario_params_def Let_def)
  have q: "initialWidth ?q = None" "initialHeight ?q = None" by simp_all
  have "spec_dimensions_invariant ?p (constrainWH ?p ?cur (Fin 9000))"
    using dimensions_invariant_preserved [where p = ?p and w = "Fin 9000" and cur = ?cur
        and evs = "[]"] v(1) n(1,2)
    by blast
  moreover have "spec_dimensions_invariant ?p (dimensions (run ?p (useDragResize_init ?p) ?evs))"
    using dimensions_invariant_preserved [where p = ?p and evs = ?evs and w = NaN] v(1) i a
    by blast
  moreover have "spec_dimensions_invariant ?q (dimensions (useDragResize_init ?q))"
    using dimensions_invariant_preserved [where p = ?q and evs = "[]" and w = NaN] v(2) q
    by blast
  moreover have "js_le (minWidth ?p) (currentWidth ?p (useDragResize_init ?p))"
    "js_le (minHeight ?p) (currentHeight ?p (useDragResize_init ?p))"
    using dimensions_invariant_preserved [where p = ?p and evs = "[]" and w = NaN
        and s = "useDragResize_init ?p"] n(3-6)
    by blast+
  ultimately show ?thesis using v i a n by simp
qed

theorem dimensions_invariant_counterexample:
  "\<not> spec_dimensions_invariant oversize_params (dimensions (useDragResize_init oversize_params))
   \<and> dimensions (useDragResize_init oversize_params) = \<lparr>width = Fin 1000, height = Fin 200\<rparr>
   \<and> maxWidth oversize_params = Fin 500
   \<and> \<not> spec_dimensions_invariant scenario_params
       (dimensions (run scenario_params (useDragResize_init scenario_params)
         [SetDimensions \<lparr>width = Fin 9000, height = Fin 1\<rparr>]))"
  by (simp add: spec_dimensions_invariant_def oversize_params_def scenario_params_def
      useDragResize_init_def run_def setDims_def Let_def)

section \<open>The scroll parents\<close>

lemma regex_keyword: "scroll_regex_test (css_keyword v) = scrollable v"
  by (cases v) (simp_all add: scroll_regex_test_def scrollable_def)

lemma scroll_walk_spec:
  "scroll_walk body par =
     map Elem (filter is_scroll_parent (takeWhile (\<lambda>n. eid n \<noteq> eid body) (ancestors_from par)))"
  by (induction body par rule: scroll_walk.induct)
    (auto simp: regex_keyword is_scroll_parent_def)

lemma filter_none: "list_all (\<lambda>n. \<not> P n) xs \<Longrightarrow> filter P xs = []"
  by (induction xs) simp_all

text \<open>
  Claim C9. For \<open>null\<close> the result is \<open>[window]\<close>. For an element, the walk starts at its
  parent and stops before the body (or at the root); it keeps exactly the ancestors
  whose computed \<open>overflow-x\<close> or \<open>overflow-y\<close> is \<open>auto\<close>, \<open>scroll\<close> or \<open>overlay\<close>, nearest
  first, and the window is appended last. With no such ancestor the result is
  \<open>[window]\<close>.
\<close>

theorem getScrollParents_spec:
  "getScrollParents body None = [Window]
   \<and> getScrollParents body (Some el) = spec_scroll_parents body el
   \<and> (scroll_regex_test (css_keyword v) \<longleftrightarrow> v = Auto \<or> v = Scroll \<or> v = Overlay)
   \<and> last (getScrollParents body (Some el)) = Window
   \<and> (list_all (\<lambda>n. \<not> is_scroll_parent n)
         (takeWhile (\<lambda>n. eid n \<noteq> eid body) (ancestors_from (parentElement el)))
       \<longrightarrow> getScrollParents body (Some el) = [Window])"
proof (intro conjI impI)
  show "getScrollParents body None = [Window]" by (simp add: getScrollParents_def)
  show e: "getScrollParents body (Some el) = spec_scroll_parents body el"
    by (simp add: getScrollParents_def spec_scroll_parents_def scroll_walk_spec)
  show "scroll_regex_test (css_keyword v) \<longleftrightarrow> v = Auto \<or> v = Scroll \<or> v = Overlay"
    by (simp add: regex_keyword scrollable_def)
  show "last (getScrollParents body (Some el)) = Window" by (simp add: getScrollParents_def)
  assume "list_all (\<lambda>n. \<not> is_scroll_parent n)
         (takeWhile (\<lambda>n. eid n \<noteq> eid body) (ancestors_from (parentElement el)))"
  then show "getScrollParents body (Some el) = [Window]"
    unfolding e spec_scroll_parents_def by (simp add: filter_none)
qed

theorem getScrollParents_spec_witness:
  "getScrollParents body_el (Some leaf_el) = [Elem scroller_el, Window]
   \<and> spec_scroll_parents body_el leaf_el = [Elem scroller_el, Window]
   \<and> list_all (\<lambda>n. \<not> is_scroll_parent n)
       (takeWhile (\<lambda>n. eid n \<noteq> eid body_el) (ancestors_from (parentElement top_el)))
   \<and> getScrollParents body_el (Some top_el) = [Window]"
proof -
  have s: "spec_scroll_parents body_el leaf_el = [Elem scroller_el, Window]"
    by (simp add: spec_scroll_parents_def leaf_el_def panel_el_def scroller_el_def body_el_def
        html_el_def is_scroll_parent_def scrollable_def)
  have h: "list_all (\<lambda>n. \<not> is_scroll_parent n)
       (takeWhile (\<lambda>n. eid n \<noteq> eid body_el) (ancestors_from (parentElement top_el)))"
    by (simp add: top_el_def body_el_def html_el_def)
  have "getScrollParents body_el (Some leaf_el) = spec_scroll_parents body_el leaf_el"
    using getScrollParents_spec [where body = body_el and el = leaf_el and v = Auto] by blast
  moreover have "getScrollParents body_el (Some top_el) = [Window]"
    using getScrollParents_spec [where body = body_el and el = top_el and v = Auto] h by blast
  ultimately show ?thesis using s h by simp
qed

section \<open>Measuring\<close>

lemma measure_same: "same (obj_val (rect s)) r \<Longrightarrow> measure_rect r s = s"
  by (simp add: measure_rect_def)

lemma measure_changed:
  "\<not> same (obj_val (rect s)) r \<Longrightarrow>
   measure_rect r s = s\<lparr>rectRef := \<lparr>obj_id = nextId s, obj_val = r\<rparr>,
                   rect := \<lparr>obj_id = nextId s, obj_val = r\<rparr>,
                   updates := updates s + 1, nextId := nextId s + 1\<rparr>"
  by (simp add: measure_rect_def Let_def)

text \<open>
  Claim C3. When the measured geometry equals the published rect after rounding \<open>x\<close>,
  \<open>y\<close>, \<open>width\<close> and \<open>height\<close> to whole pixels, \<open>measure_rect\<close> leaves the state as it is: the
  published rect is the same object and no update is signalled. When a rounded field
  differs, a new object (an identity not used before) is published, whose fields are the
  unrounded geometry, and one update is signalled. Measuring the same geometry again
  changes nothing.
\<close>

theorem measure_dedup:
  "(same prev r \<longleftrightarrow>
      js_eq (Math_round (rect_width prev)) (Math_round (rect_width r))
      \<and> js_eq (Math_round (rect_height prev)) (Math_round (rect_height r))
      \<and> js_eq (Math_round (rect_x prev)) (Math_round (rect_x r))
      \<and> js_eq (Math_round (rect_y prev)) (Math_round (rect_y r)))
   \<and> (same (obj_val (rect s)) r \<longrightarrow> measure_rect r s = s)
   \<and> (\<not> same (obj_val (rect s)) r
       \<longrightarrow> rect (measure_rect r s) = \<lparr>obj_id = nextId s, obj_val = r\<rparr>
         \<and> updates (measure_rect r s) = updates s + 1
         \<and> nextId (measure_rect r s) = nextId s + 1
         \<and> (obj_id (rect s) < nextId s \<longrightarrow> obj_id (rect (measure_rect r s)) \<noteq> obj_id (rect s)))
   \<and> (same r r \<longrightarrow> measure_rect r (measure_rect r s) = measure_rect r s)"
proof (intro conjI impI)
  show "same prev r \<longleftrightarrow>
      js_eq (Math_round (rect_width prev)) (Math_round (rect_width r))
      \<and> js_eq (Math_round (rect_height prev)) (Math_round (rect_height r))
      \<and> js_eq (Math_round (rect_x prev)) (Math_round (rect_x r))
      \<and> js_eq (Math_round (rect_y prev)) (Math_round (rect_y r))"
    by (simp add: same_def)
next
  assume "same (obj_val (rect s)) r"
  then show "measure_rect r s = s" by (rule measure_same)
next
  assume n: "\<not> same (obj_val (rect s)) r"
  then show "rect (measure_rect r s) = \<lparr>obj_id = nextId s, obj_val = r\<rparr>"
    and "updates (measure_rect r s) = updates s + 1"
    and "nextId (measure_rect r s) = nextId s + 1"
    by (simp_all add: measure_changed)
  assume "obj_id (rect s) < nextId s"
  with n show "obj_id (rect (measure_rect r s)) \<noteq> obj_id (rect s)"
    by (simp add: measure_changed)
next
  assume rr: "same r r"
  show "measure_rect r (measure_rect r s) = measure_rect r s"
  proof (cases "same (obj_val (rect s)) r")
    case True
    then show ?thesis by (simp add: measure_same)
  next
    case False
    then have "obj_val (rect (measure_rect r s)) = r" by (simp add: measure_changed)
    with rr show ?thesis by (simp add: measure_same)
  qed
qed

theorem measure_dedup_witness:
  "\<not> same (obj_val (rect useContainerRect_init)) measured_rect
   \<and> obj_id (rect useContainerRect_init) < nextId useContainerRect_init
   \<and> rect (measure_rect measured_rect useContainerRect_init) = \<lparr>obj_id = 1, obj_val = measured_rect\<rparr>
   \<and> updates (measure_rect measured_rect useContainerRect_init) = 1
   \<and> obj_id (rect (measure_rect measured_rect useContainerRect_init)) \<noteq> obj_id (rect useContainerRect_init)
   \<and> same (obj_val (rect (measure_rect measured_rect useContainerRect_init)))
        (measured_rect\<lparr>rect_width := Fin (1003 / 10), rect_right := Fin (1103 / 10)\<rparr>)
   \<and> measure_rect (measured_rect\<lparr>rect_width := Fin (1003 / 10), rect_right := Fin (1103 / 10)\<rparr>)
        (measure_rect measured_rect useContainerRect_init)
       = measure_rect measured_rect useContainerRect_init
   \<and> same measured_rect measured_rect
   \<and> measure_rect measured_rect (measure_rect measured_rect useContainerRect_init)
       = measure_rect measured_rect useContainerRect_init"
proof -
  let ?s0 = useContainerRect_init
  let ?s1 = "measure_rect measured_rect ?s0"
  let ?r2 = "measured_rect\<lparr>rect_width := Fin (1003 / 10), rect_right := Fin (1103 / 10)\<rparr>"
  have v: "rect ?s0 = \<lparr>obj_id = 0, obj_val = DEFAULT_RECT\<rparr>" "nextId ?s0 = 1" "updates ?s0 = 0"
    by (simp_all add: useContainerRect_init_def Let_def)
  have n: "\<not> same (obj_val (rect ?s0)) measured_rect"
    by (simp add: v same_def DEFAULT_RECT_def measured_rect_def js_eq_def)
  have f: "obj_id (rect ?s0) < nextId ?s0" by (simp add: v)
  have rr: "same measured_rect measured_rect"
    by (simp add: same_def measured_rect_def js_eq_def)
  have a: "rect ?s1 = \<lparr>obj_id = nextId ?s0, obj_val = measured_rect\<rparr>"
    "updates ?s1 = updates ?s0 + 1" "obj_id (rect ?s1) \<noteq> obj_id (rect ?s0)"
    using measure_dedup [where s = ?s0 and r = measured_rect and prev = DEFAULT_RECT] n f
    by blast+
  have ov: "obj_val (rect ?s1) = measured_rect" by (simp add: a)
  have s2: "same (obj_val (rect ?s1)) ?r2"
    unfolding ov by (simp add: same_def measured_rect_def js_eq_def)
  have "measure_rect ?r2 ?s1 = ?s1"
    using measure_dedup [where s = ?s1 and r = ?r2 and prev = DEFAULT_RECT] s2 by blast
  moreover have "measure_rect measured_rect ?s1 = ?s1"
    using measure_dedup [where s = ?s0 and r = measured_rect and prev = DEFAULT_RECT] rr by blast
  ultimately show ?thesis using n f rr s2 a by (simp add: v)
qed

section \<open>Detaching\<close>

lemma rect_cleanup_fields:
  "rect (rect_cleanup s) = rect s \<and> updates (rect_cleanup s) = updates s
   \<and> rectRef (rect_cleanup s) = rectRef s \<and> nodeRef (rect_cleanup s) = nodeRef s
   \<and> nextId (rect_cleanup s) = nextId s
   \<and> \<not> t_rafIdRef (rect_cleanup s) \<and> \<not> roRef (rect_cleanup s)
   \<and> \<not> resizeHandlerRef (rect_cleanup s) \<and> scrollHandlersRef (rect_cleanup s) = []"
  by (simp add: rect_cleanup_def Let_def)

lemma frame_detached: "nodeRef s = None \<Longrightarrow> rect (frame r s) = rect s \<and> updates (frame r s) = updates s"
  by (simp add: frame_def)

text \<open>
  Claim C7, as amended. Invoking the attach callback with \<open>null\<close>, or tearing the tracker
  down, clears the node, the request id, the observer and the listeners, and leaves the
  published rect as it is: the same object, with no update signalled, and a frame that
  fires afterwards does not change it either. The all-zero default rect is the rect
  published initially, before the first attachment.
\<close>

theorem detach_keeps_rect:
  "rect (ref trackPosition body None r s) = rect s
   \<and> updates (ref trackPosition body None r s) = updates s
   \<and> rectRef (ref trackPosition body None r s) = rectRef s
   \<and> nodeRef (ref trackPosition body None r s) = None
   \<and> \<not> t_rafIdRef (ref trackPosition body None r s)
   \<and> \<not> roRef (ref trackPosition body None r s)
   \<and> \<not> resizeHandlerRef (ref trackPosition body None r s)
   \<and> scrollHandlersRef (ref trackPosition body None r s) = []
   \<and> rect (frame r' (ref trackPosition body None r s)) = rect s
   \<and> rect (unmount s) = rect s \<and> updates (unmount s) = updates s
   \<and> rectRef (unmount s) = rectRef s \<and> nodeRef (unmount s) = None
   \<and> \<not> t_rafIdRef (unmount s) \<and> \<not> roRef (unmount s) \<and> \<not> resizeHandlerRef (unmount s)
   \<and> scrollHandlersRef (unmount s) = []
   \<and> rect (frame r' (unmount s)) = rect s
   \<and> rect useContainerRect_init = \<lparr>obj_id = 0, obj_val = DEFAULT_RECT\<rparr>
   \<and> DEFAULT_RECT =
       \<lparr>rect_x = Fin 0, rect_y = Fin 0, rect_width = Fin 0, rect_height = Fin 0,
        rect_top = Fin 0, rect_left = Fin 0, rect_right = Fin 0, rect_bottom = Fin 0\<rparr>"
proof -
  have d: "ref trackPosition body None r s = (rect_cleanup s)\<lparr>nodeRef := None\<rparr>"
    by (simp add: ref_def Let_def)
  have u: "unmount s = rect_cleanup (s\<lparr>nodeRef := None\<rparr>)" by (simp add: unmount_def)
  have n1: "nodeRef (ref trackPosition body None r s) = None" by (simp add: d)
  have n2: "nodeRef (unmount s) = None" by (simp add: u rect_cleanup_fields)
  have f1: "rect (frame r' (ref trackPosition body None r s)) = rect s"
    using frame_detached [OF n1] by (simp add: d rect_cleanup_fields)
  have f2: "rect (frame r' (unmount s)) = rect s"
    using frame_detached [OF n2] by (simp add: u rect_cleanup_fields)
  show ?thesis
    using f1 f2 n2
    by (simp add: d u rect_cleanup_fields useContainerRect_init_def Let_def DEFAULT_RECT_def)
qed

theorem detach_reset_counterexample:
  "obj_val (rect attached_state) = measured_rect
   \<and> obj_val (rect (ref False body_el None measured_rect attached_state)) = measured_rect
   \<and> obj_val (rect (ref False body_el None measured_rect attached_state)) \<noteq> DEFAULT_RECT
   \<and> obj_val (rect (unmount attached_state)) \<noteq> DEFAULT_RECT"
  by code_simp

end
